theory Spec2Isabelle
  imports Main "HOL-Library.AList"
begin

section \<open>Python values, exceptions and dictionaries\<close>

text \<open>
  The two adapters of the repository (\<^verbatim>\<open>StudyDataset\<close> in
  \<^verbatim>\<open>kedro_datasets/optuna/study_dataset.py\<close> and \<^verbatim>\<open>DartsTorchModelDataset\<close> in
  \<^verbatim>\<open>kedro_datasets_experimental/darts/darts_torch_model_dataset.py\<close>) are embedded
  function by function. Mutable Python objects (dicts and lists) live in an explicit
  object heap and are referred to by address, because \<^verbatim>\<open>StudyDataset.load\<close> pops keys
  out of nested configuration dicts: whether that is visible through
  \<^verbatim>\<open>self._load_args\<close> depends on which objects are shared.
\<close>

type_synonym addr = nat

datatype pyval = VNone | VBool bool | VInt int | VStr string | VRef addr

text \<open>A dict with string keys, in insertion order; also the keyword arguments of a call.\<close>

type_synonym kwargs = "(string \<times> pyval) list"

datatype hobj = ODict kwargs | OList "pyval list"

type_synonym heap = "hobj list"

text \<open>
  Exception classes. The built-in classes that occur are named, and so are
  \<^verbatim>\<open>DatasetError\<close> and its three subclasses in \<^verbatim>\<open>kedro.io.core\<close>. Every other class is
  either \<^verbatim>\<open>Subclass name base\<close>, a class derived from the class \<^verbatim>\<open>base\<close>, or
  \<^verbatim>\<open>OtherException name\<close>, a class that derives from none of the classes named here.
\<close>

datatype exc_class =
    ValueError | TypeError | KeyError | AttributeError | UnboundLocalError
  | RecursionError | SystemError | OSError | PermissionError | FileNotFoundError
  | DatasetError | VersionNotFoundError | DatasetNotFoundError | DatasetAlreadyExistsError
  | Subclass string exc_class
  | OtherException string

datatype py_exc = Raise exc_class string

text \<open>
  \<^verbatim>\<open>issubclass(cls, DatasetError)\<close>: the class itself, its subclasses
  \<^verbatim>\<open>VersionNotFoundError\<close>, \<^verbatim>\<open>DatasetNotFoundError\<close> and \<^verbatim>\<open>DatasetAlreadyExistsError\<close>, and
  every class derived from one of these.
\<close>

fun issubclass_DatasetError :: "exc_class \<Rightarrow> bool" where
  "issubclass_DatasetError DatasetError = True"
| "issubclass_DatasetError VersionNotFoundError = True"
| "issubclass_DatasetError DatasetNotFoundError = True"
| "issubclass_DatasetError DatasetAlreadyExistsError = True"
| "issubclass_DatasetError (Subclass name base) = issubclass_DatasetError base"
| "issubclass_DatasetError cls = False"

text \<open>What \<^verbatim>\<open>except DatasetError\<close> catches: the instances of the class and of its subclasses.\<close>

fun isinstance_DatasetError :: "py_exc \<Rightarrow> bool" where
  "isinstance_DatasetError (Raise cls msg) = issubclass_DatasetError cls"

definition deref :: "heap \<Rightarrow> addr \<Rightarrow> hobj option" where
  "deref h a = (if a < length h then Some (h ! a) else None)"

definition alloc :: "heap \<Rightarrow> hobj \<Rightarrow> addr \<times> heap" where
  "alloc h ob = (length h, h @ [ob])"

definition store :: "heap \<Rightarrow> addr \<Rightarrow> hobj \<Rightarrow> heap" where
  "store h a ob = h[a := ob]"

text \<open>Python truthiness (\<^verbatim>\<open>if x:\<close>, \<^verbatim>\<open>x or y\<close>) of the modelled values.\<close>

definition truthy :: "heap \<Rightarrow> pyval \<Rightarrow> bool" where
  "truthy h v =
     (case v of
        VNone \<Rightarrow> False
      | VBool b \<Rightarrow> b
      | VInt i \<Rightarrow> i \<noteq> 0
      | VStr s \<Rightarrow> s \<noteq> []
      | VRef a \<Rightarrow>
          (case deref h a of
             Some (ODict d) \<Rightarrow> d \<noteq> []
           | Some (OList l) \<Rightarrow> l \<noteq> []
           | None \<Rightarrow> True))"

definition dict_contains :: "string \<Rightarrow> kwargs \<Rightarrow> bool" where
  "dict_contains k d = (map_of d k \<noteq> None)"

text \<open>\<^verbatim>\<open>d.pop(k)\<close>: the value and the dict without the key, or \<^verbatim>\<open>KeyError\<close>.\<close>

definition dict_pop :: "string \<Rightarrow> kwargs \<Rightarrow> py_exc + (pyval \<times> kwargs)" where
  "dict_pop k d =
     (case map_of d k of
        None \<Rightarrow> Inl (Raise KeyError k)
      | Some v \<Rightarrow> Inr (v, AList.delete k d))"

text \<open>\<^verbatim>\<open>d.pop(k, default)\<close>.\<close>

definition dict_pop_default :: "string \<Rightarrow> pyval \<Rightarrow> kwargs \<Rightarrow> pyval \<times> kwargs" where
  "dict_pop_default k dflt d =
     (case map_of d k of
        None \<Rightarrow> (dflt, d)
      | Some v \<Rightarrow> (v, AList.delete k d))"

text \<open>
  \<^verbatim>\<open>d1 |= d2\<close> and \<^verbatim>\<open>{**d1, **d2}\<close>: the entries of \<^verbatim>\<open>d2\<close> are written into
  \<^verbatim>\<open>d1\<close> from first to last; an existing key keeps its position.
\<close>

definition dict_update :: "kwargs \<Rightarrow> kwargs \<Rightarrow> kwargs" where
  "dict_update d1 d2 = foldl (\<lambda>d kv. AList.update (fst kv) (snd kv) d) d1 d2"

section \<open>\<^verbatim>\<open>posixpath\<close> and \<^verbatim>\<open>pathlib.PurePosixPath\<close>\<close>

text \<open>
  \<^verbatim>\<open>StudyDataset._get_versioned_path\<close> builds the versioned study name with
  \<^verbatim>\<open>PurePosixPath\<close> arithmetic and \<^verbatim>\<open>str\<close>. The standard library's behaviour is
  modelled as CPython 3.12 implements it: a pure path keeps its raw segments, and
  \<^verbatim>\<open>str\<close> joins them with \<^verbatim>\<open>posixpath.join\<close>, splits off the root, drops empty and
  \<^verbatim>\<open>.\<close> components and joins the rest with \<^verbatim>\<open>/\<close>.
\<close>

text \<open>\<^verbatim>\<open>s.split(c)\<close> for a one-character separator.\<close>

fun split_sep :: "char \<Rightarrow> string \<Rightarrow> string list" where
  "split_sep c [] = [[]]"
| "split_sep c (x # xs) =
     (if x = c then [] # split_sep c xs
      else (case split_sep c xs of
              [] \<Rightarrow> [[x]]
            | s # ss \<Rightarrow> (x # s) # ss))"

text \<open>\<^verbatim>\<open>c.join(parts)\<close>.\<close>

fun join_sep :: "char \<Rightarrow> string list \<Rightarrow> string" where
  "join_sep c [] = []"
| "join_sep c [s] = s"
| "join_sep c (s # t # ss) = s @ c # join_sep c (t # ss)"

text \<open>\<^verbatim>\<open>posixpath.join(a, *p)\<close>.\<close>

fun posixpath_join :: "string \<Rightarrow> string list \<Rightarrow> string" where
  "posixpath_join path [] = path"
| "posixpath_join path (b # bs) =
     posixpath_join
       (if b \<noteq> [] \<and> hd b = CHR ''/'' then b
        else if path = [] \<or> last path = CHR ''/'' then path @ b
        else path @ CHR ''/'' # b)
       bs"

text \<open>
  \<^verbatim>\<open>posixpath.dirname(p)\<close>: the part of \<^verbatim>\<open>p\<close> up to its last slash, without trailing
  slashes unless it consists of slashes only; empty when \<^verbatim>\<open>p\<close> has no slash.
\<close>

definition posixpath_dirname :: "string \<Rightarrow> string" where
  "posixpath_dirname p =
     (let head = rev (dropWhile (\<lambda>c. c \<noteq> CHR ''/'') (rev p))
      in if head \<noteq> [] \<and> head \<noteq> replicate (length head) CHR ''/''
         then rev (dropWhile (\<lambda>c. c = CHR ''/'') (rev head))
         else head)"

text \<open>
  \<^verbatim>\<open>posixpath.splitroot\<close> without the (always empty) drive: a relative path has no root,
  exactly two leading slashes are kept as the root, any other number is the root
  \<^verbatim>\<open>/\<close>.
\<close>

fun splitroot :: "string \<Rightarrow> string \<times> string" where
  "splitroot [] = ([], [])"
| "splitroot (c # p) =
     (if c \<noteq> CHR ''/'' then ([], c # p)
      else if take 1 p \<noteq> ''/'' \<or> take 1 (drop 1 p) = ''/'' then (''/'', p)
      else (''//'', drop 1 p))"

datatype posix_path = PurePosixPath "string list"

fun raw_paths :: "posix_path \<Rightarrow> string list" where
  "raw_paths (PurePosixPath ps) = ps"

text \<open>\<^verbatim>\<open>PurePath._load_parts\<close> with \<^verbatim>\<open>_parse_path\<close>: the root and the components.\<close>

definition load_parts :: "posix_path \<Rightarrow> string \<times> string list" where
  "load_parts p =
     (let path = (case raw_paths p of [] \<Rightarrow> [] | a # bs \<Rightarrow> posixpath_join a bs) in
      if path = [] then ([], [])
      else (let (root, rel) = splitroot path in
            (root, filter (\<lambda>x. x \<noteq> [] \<and> x \<noteq> ''.'') (split_sep CHR ''/'' rel))))"

text \<open>\<^verbatim>\<open>str(path)\<close>: \<^verbatim>\<open>_format_parsed_parts(...) or '.'\<close>.\<close>

definition path_str :: "posix_path \<Rightarrow> string" where
  "path_str p =
     (let (root, tl) = load_parts p;
          s = root @ join_sep CHR ''/'' tl
      in if s = [] then ''.'' else s)"

text \<open>\<^verbatim>\<open>path / key\<close> for a string and for another pure path.\<close>

definition truediv_str :: "posix_path \<Rightarrow> string \<Rightarrow> posix_path" where
  "truediv_str p s = PurePosixPath (raw_paths p @ [s])"

definition truediv :: "posix_path \<Rightarrow> posix_path \<Rightarrow> posix_path" where
  "truediv p q = PurePosixPath (raw_paths p @ raw_paths q)"

section \<open>\<^verbatim>\<open>StudyDataset\<close>\<close>

text \<open>\<^verbatim>\<open>kedro.io.core.Version\<close>, a named tuple of two optional strings.\<close>

record Version =
  load :: "string option"
  save :: "string option"

text \<open>
  The attributes of a \<^verbatim>\<open>StudyDataset\<close> instance (without the leading underscore of the
  source). \<^verbatim>\<open>load_args\<close> is the address of the dict that \<^verbatim>\<open>__init__\<close> creates.
\<close>

record study_dataset =
  backend :: string
  database :: string
  storage :: string
  study_name :: string
  metadata :: pyval
  filepath :: "posix_path option"
  version :: "Version option"
  load_args :: addr

text \<open>
  What the adapter calls but does not define: the process environment, the standard
  library's file-system functions, \<^verbatim>\<open>sqlalchemy.URL\<close>, the \<^verbatim>\<open>optuna\<close> storage
  operations and class registries, and the parts of \<^verbatim>\<open>kedro.io.core\<close> it inherits.
  They are parameters of the model: \<open>'w\<close> is the state of the outside world (the
  database and the file system), \<open>'obj\<close> the type of sampler and pruner objects,
  \<open>'st\<close> the type of a loaded study. A registry entry is the constructor of the named
  class; it receives the keyword arguments and may read (not write) the object
  heap. \<^verbatim>\<open>recursion_limit\<close> is the depth of recursion the interpreter allows
  \<^verbatim>\<open>copy.deepcopy\<close>.
\<close>

record ('w, 'obj, 'st) collaborators =
  getenv :: "string \<Rightarrow> string option"
  realpath :: "string \<Rightarrow> string"
  URL_create :: "string \<Rightarrow> string \<Rightarrow> kwargs \<Rightarrow> py_exc + string"
  recursion_limit :: nat
  samplers :: "string \<Rightarrow> (kwargs \<Rightarrow> heap \<Rightarrow> py_exc + 'obj) option"
  pruners :: "string \<Rightarrow> (kwargs \<Rightarrow> heap \<Rightarrow> py_exc + 'obj) option"
  isfile :: "string \<Rightarrow> 'w \<Rightarrow> bool"
  dirname :: "string \<Rightarrow> string"
  makedirs :: "string \<Rightarrow> 'w \<Rightarrow> py_exc + 'w"
  create_study :: "string \<Rightarrow> 'w \<Rightarrow> py_exc + 'w"
  get_all_study_names :: "string \<Rightarrow> 'w \<Rightarrow> py_exc + string list"
  delete_study :: "string \<Rightarrow> string \<Rightarrow> 'w \<Rightarrow> py_exc + 'w"
  copy_study :: "string \<Rightarrow> string \<Rightarrow> string \<Rightarrow> string \<Rightarrow> 'w \<Rightarrow> py_exc + 'w"
  load_study :: "string \<Rightarrow> string \<Rightarrow> 'obj option \<Rightarrow> 'obj option \<Rightarrow> 'w \<Rightarrow> py_exc + 'st"
  fetch_latest_load_version :: "study_dataset \<Rightarrow> 'w \<Rightarrow> py_exc + string"
  generate_timestamp :: "'w \<Rightarrow> string"
  str_dataset :: "study_dataset \<Rightarrow> string"

text \<open>The calls into \<^verbatim>\<open>os\<close> and \<^verbatim>\<open>optuna\<close> that a method makes, in order.\<close>

datatype call =
    Makedirs string
  | CreateStudy string
  | GetAllStudyNames string
  | DeleteStudy string string
  | CopyStudy string string string string
  | LoadStudy string string
  | SamplerInit string kwargs
  | PrunerInit string kwargs

record 'w state =
  heap :: heap
  world :: 'w
  calls :: "call list"

text \<open>The two attributes of the \<^verbatim>\<open>optuna.Study\<close> that \<^verbatim>\<open>save\<close> reads.\<close>

record optuna_study =
  from_study_name :: string
  from_storage :: string

subsection \<open>\<^verbatim>\<open>__init__\<close>\<close>

definition DEFAULT_LOAD_ARGS :: kwargs where
  "DEFAULT_LOAD_ARGS = [(''sampler'', VNone), (''pruner'', VNone)]"

text \<open>\<^verbatim>\<open>os.getenv\<close> returns a string or \<^verbatim>\<open>None\<close>.\<close>

definition os_getenv :: "('w, 'obj, 'st) collaborators \<Rightarrow> string \<Rightarrow> pyval" where
  "os_getenv c k = (case getenv c k of None \<Rightarrow> VNone | Some s \<Rightarrow> VStr s)"

text \<open>\<^verbatim>\<open>**(load_args or {})\<close>: the entries of a non-empty dict; nothing else unpacks.\<close>

definition load_args_or_empty :: "heap \<Rightarrow> pyval \<Rightarrow> py_exc + kwargs" where
  "load_args_or_empty h la =
     (if truthy h la then
        (case la of
           VRef a \<Rightarrow>
             (case deref h a of
                Some (ODict d) \<Rightarrow> Inr d
              | _ \<Rightarrow> Inl (Raise TypeError ''argument after ** must be a mapping''))
         | _ \<Rightarrow> Inl (Raise TypeError ''argument after ** must be a mapping''))
      else Inr [])"

text \<open>
  The constructor. Its first statement about credentials rebinds the parameter
  \<^verbatim>\<open>credentials\<close> to a dict built from the environment, so the argument is never
  read. The two credential dicts are local to the call and are values here; the
  merged \<^verbatim>\<open>load_args\<close> dict is allocated in the heap, sharing its values with the
  caller's dict as \<^verbatim>\<open>{**a, **b}\<close> does.
\<close>

definition StudyDataset_init ::
  "('w, 'obj, 'st) collaborators \<Rightarrow> string \<Rightarrow> string \<Rightarrow> string \<Rightarrow> pyval \<Rightarrow> Version option
     \<Rightarrow> pyval \<Rightarrow> pyval \<Rightarrow> heap \<Rightarrow> py_exc + (study_dataset \<times> heap)" where
  "StudyDataset_init c backend' database' study_name' load_args' version' credentials' metadata' h =
     (let credentials =
            [(''username'', os_getenv c ''DB_USERNAME''),
             (''password'', os_getenv c ''DB_PASSWORD''),
             (''host'', os_getenv c ''DB_HOST''),
             (''port'', os_getenv c ''DB_PORT'')];
          credentials_copy = (if credentials \<noteq> [] then credentials else []);
          credentials = dict_update credentials credentials_copy
      in case (if credentials_copy \<noteq> []
               then URL_create c backend' database' credentials
               else Inl (Raise UnboundLocalError ''storage'')) of
           Inl e \<Rightarrow> Inl e
         | Inr storage' \<Rightarrow>
             (let filepath' =
                    (if backend' = ''sqlite''
                     then Some (PurePosixPath [realpath c database'])
                     else None)
              in case load_args_or_empty h load_args' of
                   Inl e \<Rightarrow> Inl e
                 | Inr la \<Rightarrow>
                     (let (a, h') = alloc h (ODict (dict_update DEFAULT_LOAD_ARGS la))
                      in Inr (\<lparr>backend = backend', database = database',
                                storage = storage', study_name = study_name',
                                metadata = metadata', filepath = filepath',
                                version = version', load_args = a\<rparr>, h'))))"

subsection \<open>Version resolution\<close>

definition get_versioned_path :: "study_dataset \<Rightarrow> string \<Rightarrow> posix_path" where
  "get_versioned_path ds ver =
     (let study_name_posix = PurePosixPath [study_name ds]
      in truediv (truediv_str study_name_posix ver) study_name_posix)"


definition resolve_load_version ::
  "('w, 'obj, 'st) collaborators \<Rightarrow> study_dataset \<Rightarrow> 'w \<Rightarrow> py_exc + string option" where
  "resolve_load_version c ds w =
     (case version ds of
        None \<Rightarrow> Inr None
      | Some ver \<Rightarrow>
          (if load ver \<noteq> None \<and> load ver \<noteq> Some []
           then Inr (load ver)
           else (case fetch_latest_load_version c ds w of
                   Inl e \<Rightarrow> Inl e
                 | Inr v \<Rightarrow> Inr (Some v))))"

text \<open>
  Modelled from the spec: \<^verbatim>\<open>resolve_save_version\<close> is inherited from
  \<^verbatim>\<open>kedro.io.core.AbstractVersionedDataset\<close> and is not in the repository. The spec's
  contract for it: with versioning disabled there is no version; a pinned save
  version is used; otherwise one is generated by the external convention. It has
  the shape of \<^verbatim>\<open>resolve_load_version\<close> above.
\<close>

definition resolve_save_version ::
  "('w, 'obj, 'st) collaborators \<Rightarrow> study_dataset \<Rightarrow> 'w \<Rightarrow> string option" where
  "resolve_save_version c ds w =
     (case version ds of
        None \<Rightarrow> None
      | Some ver \<Rightarrow>
          (if save ver \<noteq> None \<and> save ver \<noteq> Some []
           then save ver
           else Some (generate_timestamp c w)))"

definition get_load_study_name ::
  "('w, 'obj, 'st) collaborators \<Rightarrow> study_dataset \<Rightarrow> 'w \<Rightarrow> py_exc + string" where
  "get_load_study_name c ds w =
     (case version ds of
        None \<Rightarrow> Inr (study_name ds)
      | Some _ \<Rightarrow>
          (case resolve_load_version c ds w of
             Inl e \<Rightarrow> Inl e
           | Inr None \<Rightarrow> Inl (Raise TypeError ''unsupported operand type(s) for /'')
           | Inr (Some load_version) \<Rightarrow>
               Inr (path_str (get_versioned_path ds load_version))))"

text \<open>
  \<^verbatim>\<open>_study_name_exists\<close>; it is also the \<^verbatim>\<open>exists_function\<close> that \<^verbatim>\<open>__init__\<close>
  hands to the base class, so \<^verbatim>\<open>self._exists_function\<close> is this function.
\<close>

definition study_name_exists ::
  "('w, 'obj, 'st) collaborators \<Rightarrow> study_dataset \<Rightarrow> string \<Rightarrow> 'w state
     \<Rightarrow> (py_exc + bool) \<times> 'w state" where
  "study_name_exists c ds path st =
     (let query =
            (case get_all_study_names c (storage ds) (world st) of
               Inl e \<Rightarrow> (Inl e, st\<lparr>calls := calls st @ [GetAllStudyNames (storage ds)]\<rparr>)
             | Inr study_names \<Rightarrow>
                 (Inr (path \<in> set study_names),
                  st\<lparr>calls := calls st @ [GetAllStudyNames (storage ds)]\<rparr>))
      in if backend ds = ''sqlite'' then
           (case filepath ds of
              None \<Rightarrow> (Inl (Raise TypeError ''stat: path should be string, not NoneType''), st)
            | Some fp \<Rightarrow>
                (if \<not> isfile c (path_str fp) (world st) then (Inr False, st) else query))
         else query)"

definition get_save_study_name ::
  "('w, 'obj, 'st) collaborators \<Rightarrow> study_dataset \<Rightarrow> 'w state
     \<Rightarrow> (py_exc + string) \<times> 'w state" where
  "get_save_study_name c ds st =
     (case version ds of
        None \<Rightarrow> (Inr (study_name ds), st)
      | Some _ \<Rightarrow>
          (case resolve_save_version c ds (world st) of
             None \<Rightarrow> (Inl (Raise TypeError ''unsupported operand type(s) for /''), st)
           | Some save_version \<Rightarrow>
               (let versioned_study_name = get_versioned_path ds save_version
                in case study_name_exists c ds (path_str versioned_study_name) st of
                     (Inl e, st') \<Rightarrow> (Inl e, st')
                   | (Inr True, st') \<Rightarrow>
                       (Inl (Raise DatasetError
                               (''Study name '' @ [CHR 0x27] @ path_str versioned_study_name
                                @ [CHR 0x27] @ '' for '' @ str_dataset c ds
                                @ '' must not exist if versioning is enabled.'')), st')
                   | (Inr False, st') \<Rightarrow> (Inr (path_str versioned_study_name), st'))))"

subsection \<open>\<^verbatim>\<open>copy.deepcopy\<close>\<close>

text \<open>
  \<^verbatim>\<open>deepcopy\<close> as the standard library defines it for the modelled values: atomic values
  are returned as they are; a dict or list already in the memo is answered from the
  memo; otherwise a new empty object is allocated and entered in the memo, the
  elements are copied in order, and the new object holds the copies. The first
  argument bounds the depth of the recursion; exceeding it is Python's
  \<^verbatim>\<open>RecursionError\<close>. The memo is an association list from old to new addresses.
\<close>

type_synonym memo = "(addr \<times> addr) list"

fun copy_all ::
  "(pyval \<Rightarrow> memo \<times> heap \<Rightarrow> (py_exc + pyval) \<times> memo \<times> heap) \<Rightarrow> pyval list \<Rightarrow> memo \<times> heap
     \<Rightarrow> (py_exc + pyval list) \<times> memo \<times> heap" where
  "copy_all f [] s = (Inr [], s)"
| "copy_all f (v # vs) s =
     (case f v s of
        (Inl e, s1) \<Rightarrow> (Inl e, s1)
      | (Inr v', s1) \<Rightarrow>
          (case copy_all f vs s1 of
             (Inl e, s2) \<Rightarrow> (Inl e, s2)
           | (Inr vs', s2) \<Rightarrow> (Inr (v' # vs'), s2)))"

text \<open>The elements of a container, and the container rebuilt around new elements.\<close>

fun elements :: "hobj \<Rightarrow> pyval list" where
  "elements (ODict d) = map snd d"
| "elements (OList l) = l"

fun rebuild :: "hobj \<Rightarrow> pyval list \<Rightarrow> hobj" where
  "rebuild (ODict d) vs = ODict (zip (map fst d) vs)"
| "rebuild (OList l) vs = OList vs"

fun empty_like :: "hobj \<Rightarrow> hobj" where
  "empty_like (ODict d) = ODict []"
| "empty_like (OList l) = OList []"

primrec deepcopy :: "nat \<Rightarrow> pyval \<Rightarrow> memo \<times> heap \<Rightarrow> (py_exc + pyval) \<times> memo \<times> heap" where
  "deepcopy 0 = (\<lambda>v s. (Inl (Raise RecursionError ''maximum recursion depth exceeded''), s))"
| "deepcopy (Suc n) = (\<lambda>v s.
     (case v of
        VRef a \<Rightarrow>
          (case map_of (fst s) a of
             Some a' \<Rightarrow> (Inr (VRef a'), s)
           | None \<Rightarrow>
               (case deref (snd s) a of
                  None \<Rightarrow> (Inl (Raise SystemError ''dangling reference''), s)
                | Some ob \<Rightarrow>
                    (let (a', h1) = alloc (snd s) (empty_like ob)
                     in case copy_all (deepcopy n) (elements ob) ((a, a') # fst s, h1) of
                          (Inl e, s2) \<Rightarrow> (Inl e, s2)
                        | (Inr vs, s2) \<Rightarrow>
                            (Inr (VRef a'), (fst s2, store (snd s2) a' (rebuild ob vs))))))
      | _ \<Rightarrow> (Inr v, s)))"

subsection \<open>Building the sampler and the pruner\<close>

text \<open>
  \<^verbatim>\<open>obj.pop(key)\<close> on a value: a dict in the heap loses the key in place; a list
  rejects a string index; the other values have no \<^verbatim>\<open>pop\<close>.
\<close>

definition heap_pop :: "string \<Rightarrow> pyval \<Rightarrow> heap \<Rightarrow> (py_exc + pyval) \<times> heap" where
  "heap_pop k v h =
     (case v of
        VRef a \<Rightarrow>
          (case deref h a of
             Some (ODict d) \<Rightarrow>
               (case dict_pop k d of
                  Inl e \<Rightarrow> (Inl e, h)
                | Inr (x, d') \<Rightarrow> (Inr x, store h a (ODict d')))
           | Some (OList l) \<Rightarrow>
               (Inl (Raise TypeError ''str object cannot be interpreted as an integer''), h)
           | None \<Rightarrow> (Inl (Raise SystemError ''dangling reference''), h))
      | _ \<Rightarrow> (Inl (Raise AttributeError ''object has no attribute pop''), h))"

text \<open>\<^verbatim>\<open>sub in s\<close> for two strings.\<close>

fun str_contains :: "string \<Rightarrow> string \<Rightarrow> bool" where
  "str_contains sub [] = (sub = [])"
| "str_contains sub (x # xs) =
     (take (length sub) (x # xs) = sub \<or> str_contains sub xs)"

text \<open>
  \<^verbatim>\<open>"class" in config\<close>: key membership for a dict, element membership for a list,
  substring test for a string, \<^verbatim>\<open>TypeError\<close> for the values that are not
  containers.
\<close>

definition py_contains :: "string \<Rightarrow> pyval \<Rightarrow> heap \<Rightarrow> py_exc + bool" where
  "py_contains k v h =
     (case v of
        VRef a \<Rightarrow>
          (case deref h a of
             Some (ODict d) \<Rightarrow> Inr (dict_contains k d)
           | Some (OList l) \<Rightarrow> Inr (VStr k \<in> set l)
           | None \<Rightarrow> Inl (Raise SystemError ''dangling reference''))
      | VStr s \<Rightarrow> Inr (str_contains k s)
      | _ \<Rightarrow> Inl (Raise TypeError ''argument is not iterable''))"

text \<open>
  \<^verbatim>\<open>getattr(module, name)\<close> on a registry of classes: the name must be a string, and a
  name the module does not have is an \<^verbatim>\<open>AttributeError\<close>.
\<close>

definition py_getattr ::
  "(string \<Rightarrow> (kwargs \<Rightarrow> heap \<Rightarrow> py_exc + 'obj) option) \<Rightarrow> pyval
     \<Rightarrow> py_exc + (string \<times> (kwargs \<Rightarrow> heap \<Rightarrow> py_exc + 'obj))" where
  "py_getattr registry name =
     (case name of
        VStr n \<Rightarrow>
          (case registry n of
             None \<Rightarrow> Inl (Raise AttributeError n)
           | Some ctor \<Rightarrow> Inr (n, ctor))
      | _ \<Rightarrow> Inl (Raise TypeError ''attribute name must be string''))"

text \<open>\<^verbatim>\<open>**config\<close>: the entries of the dict the value refers to.\<close>

definition unpack_kwargs :: "pyval \<Rightarrow> heap \<Rightarrow> py_exc + kwargs" where
  "unpack_kwargs v h =
     (case v of
        VRef a \<Rightarrow>
          (case deref h a of
             Some (ODict d) \<Rightarrow> Inr d
           | _ \<Rightarrow> Inl (Raise TypeError ''argument after ** must be a mapping''))
      | _ \<Rightarrow> Inl (Raise TypeError ''argument after ** must be a mapping''))"

text \<open>
  \<^verbatim>\<open>_get_sampler_from_config\<close> and \<^verbatim>\<open>_get_pruner_from_config\<close> differ in the registry,
  in one word of the message and in the entry they leave in the log of calls; the
  common body takes these three as arguments. The result \<^verbatim>\<open>None\<close> of the source is
  \<open>Inr None\<close>.
\<close>

definition get_object_from_config ::
  "(string \<Rightarrow> (kwargs \<Rightarrow> heap \<Rightarrow> py_exc + 'obj) option) \<Rightarrow> string \<Rightarrow> (string \<Rightarrow> kwargs \<Rightarrow> call)
     \<Rightarrow> study_dataset \<Rightarrow> pyval \<Rightarrow> 'w state \<Rightarrow> (py_exc + 'obj option) \<times> 'w state" where
  "get_object_from_config registry kind entry ds config st =
     (if config = VNone then (Inr None, st)
      else
        (case py_contains ''class'' config (heap st) of
           Inl e \<Rightarrow> (Inl e, st)
         | Inr False \<Rightarrow>
             (Inl (Raise ValueError
                     (''Optuna '' @ kind @ '' `class` should be specified when trying to ''
                      @ ''load study named `'' @ study_name ds @ ''` with a '' @ kind @ ''.'')),
              st)
         | Inr True \<Rightarrow>
             (case heap_pop ''class'' config (heap st) of
                (Inl e, h1) \<Rightarrow> (Inl e, st\<lparr>heap := h1\<rparr>)
              | (Inr name, h1) \<Rightarrow>
                  (case py_getattr registry name of
                     Inl e \<Rightarrow> (Inl e, st\<lparr>heap := h1\<rparr>)
                   | Inr (n, ctor) \<Rightarrow>
                       (case unpack_kwargs config h1 of
                          Inl e \<Rightarrow> (Inl e, st\<lparr>heap := h1\<rparr>)
                        | Inr kw \<Rightarrow>
                            (case ctor kw h1 of
                               Inl e \<Rightarrow>
                                 (Inl e, st\<lparr>heap := h1, calls := calls st @ [entry n kw]\<rparr>)
                             | Inr ob \<Rightarrow>
                                 (Inr (Some ob),
                                  st\<lparr>heap := h1, calls := calls st @ [entry n kw]\<rparr>)))))))"

definition get_sampler_from_config ::
  "('w, 'obj, 'st) collaborators \<Rightarrow> study_dataset \<Rightarrow> pyval \<Rightarrow> 'w state
     \<Rightarrow> (py_exc + 'obj option) \<times> 'w state" where
  "get_sampler_from_config c ds sampler_config st =
     get_object_from_config (samplers c) ''sampler'' SamplerInit ds sampler_config st"

definition get_pruner_from_config ::
  "('w, 'obj, 'st) collaborators \<Rightarrow> study_dataset \<Rightarrow> pyval \<Rightarrow> 'w state
     \<Rightarrow> (py_exc + 'obj option) \<times> 'w state" where
  "get_pruner_from_config c ds pruner_config st =
     get_object_from_config (pruners c) ''pruner'' PrunerInit ds pruner_config st"

subsection \<open>\<^verbatim>\<open>load\<close> and \<^verbatim>\<open>save\<close>\<close>

definition StudyDataset_load ::
  "('w, 'obj, 'st) collaborators \<Rightarrow> study_dataset \<Rightarrow> 'w state \<Rightarrow> (py_exc + 'st) \<times> 'w state" where
  "StudyDataset_load c ds st =
     (case deepcopy (recursion_limit c) (VRef (load_args ds)) ([], heap st) of
        (Inl e, s1) \<Rightarrow> (Inl e, st\<lparr>heap := snd s1\<rparr>)
      | (Inr load_args', s1) \<Rightarrow>
          (case heap_pop ''sampler'' load_args' (snd s1) of
             (Inl e, h2) \<Rightarrow> (Inl e, st\<lparr>heap := h2\<rparr>)
           | (Inr sampler_config, h2) \<Rightarrow>
               (case get_sampler_from_config c ds sampler_config (st\<lparr>heap := h2\<rparr>) of
                  (Inl e, st3) \<Rightarrow> (Inl e, st3)
                | (Inr sampler, st3) \<Rightarrow>
                    (case heap_pop ''pruner'' load_args' (heap st3) of
                       (Inl e, h4) \<Rightarrow> (Inl e, st3\<lparr>heap := h4\<rparr>)
                     | (Inr pruner_config, h4) \<Rightarrow>
                         (case get_pruner_from_config c ds pruner_config (st3\<lparr>heap := h4\<rparr>) of
                            (Inl e, st5) \<Rightarrow> (Inl e, st5)
                          | (Inr pruner, st5) \<Rightarrow>
                              (case get_load_study_name c ds (world st5) of
                                 Inl e \<Rightarrow> (Inl e, st5)
                               | Inr name \<Rightarrow>
                                   (load_study c (storage ds) name sampler pruner (world st5),
                                    st5\<lparr>calls :=
                                      calls st5 @ [LoadStudy (storage ds) name]\<rparr>)))))))"

text \<open>
  The three steps of \<^verbatim>\<open>save\<close> after the save name is resolved. First, for the
  \<^verbatim>\<open>sqlite\<close> backend: create the directory of the database file, and an empty
  storage if the file is not there.
\<close>

definition save_prepare_sqlite ::
  "('w, 'obj, 'st) collaborators \<Rightarrow> study_dataset \<Rightarrow> 'w state \<Rightarrow> (py_exc + unit) \<times> 'w state" where
  "save_prepare_sqlite c ds st =
     (if backend ds = ''sqlite'' then
        (case filepath ds of
           None \<Rightarrow> (Inl (Raise TypeError ''expected str, bytes or os.PathLike object''), st)
         | Some fp \<Rightarrow>
             (let dir = dirname c (path_str fp);
                  st1 = st\<lparr>calls := calls st @ [Makedirs dir]\<rparr>
              in case makedirs c dir (world st) of
                   Inl e \<Rightarrow> (Inl e, st1)
                 | Inr w1 \<Rightarrow>
                     (if \<not> isfile c (path_str fp) w1 then
                        (let st2 = st1\<lparr>calls := calls st1 @ [CreateStudy (storage ds)]\<rparr>
                         in case create_study c (storage ds) w1 of
                              Inl e \<Rightarrow> (Inl e, st2\<lparr>world := w1\<rparr>)
                            | Inr w2 \<Rightarrow> (Inr (), st2\<lparr>world := w2\<rparr>))
                      else (Inr (), st1\<lparr>world := w1\<rparr>))))
      else (Inr (), st))"

text \<open>Second: delete a study that already has the save name.\<close>

definition save_delete_existing ::
  "('w, 'obj, 'st) collaborators \<Rightarrow> study_dataset \<Rightarrow> string \<Rightarrow> 'w state
     \<Rightarrow> (py_exc + unit) \<times> 'w state" where
  "save_delete_existing c ds save_study_name st =
     (case study_name_exists c ds save_study_name st of
        (Inl e, st1) \<Rightarrow> (Inl e, st1)
      | (Inr True, st1) \<Rightarrow>
          (let st2 = st1\<lparr>calls := calls st1 @ [DeleteStudy (storage ds) save_study_name]\<rparr>
           in case delete_study c (storage ds) save_study_name (world st1) of
                Inl e \<Rightarrow> (Inl e, st2)
              | Inr w2 \<Rightarrow> (Inr (), st2\<lparr>world := w2\<rparr>))
      | (Inr False, st1) \<Rightarrow> (Inr (), st1))"

text \<open>Third: copy the study into the storage under the save name.\<close>

definition save_copy ::
  "('w, 'obj, 'st) collaborators \<Rightarrow> study_dataset \<Rightarrow> optuna_study \<Rightarrow> string \<Rightarrow> 'w state
     \<Rightarrow> (py_exc + unit) \<times> 'w state" where
  "save_copy c ds study save_study_name st =
     (let st1 = st\<lparr>calls := calls st @
                  [CopyStudy (from_study_name study) (from_storage study) (storage ds)
                     save_study_name]\<rparr>
      in case copy_study c (from_study_name study) (from_storage study) (storage ds)
                save_study_name (world st) of
           Inl e \<Rightarrow> (Inl e, st1)
         | Inr w1 \<Rightarrow> (Inr (), st1\<lparr>world := w1\<rparr>))"

definition StudyDataset_save ::
  "('w, 'obj, 'st) collaborators \<Rightarrow> study_dataset \<Rightarrow> optuna_study \<Rightarrow> 'w state
     \<Rightarrow> (py_exc + unit) \<times> 'w state" where
  "StudyDataset_save c ds study st =
     (case get_save_study_name c ds st of
        (Inl e, st1) \<Rightarrow> (Inl e, st1)
      | (Inr save_study_name, st1) \<Rightarrow>
          (case save_prepare_sqlite c ds st1 of
             (Inl e, st2) \<Rightarrow> (Inl e, st2)
           | (Inr _, st2) \<Rightarrow>
               (case save_delete_existing c ds save_study_name st2 of
                  (Inl e, st3) \<Rightarrow> (Inl e, st3)
                | (Inr _, st3) \<Rightarrow> save_copy c ds study save_study_name st3)))"

section \<open>\<^verbatim>\<open>DartsTorchModelDataset\<close>\<close>

text \<open>
  The attributes of a \<^verbatim>\<open>DartsTorchModelDataset\<close> that its methods read. The two
  argument dicts are only ever copied shallowly and popped from the copy, so they
  are values here.
\<close>

record darts_dataset =
  darts_protocol :: string
  darts_load_args :: kwargs
  darts_save_args :: kwargs

text \<open>
  What the adapter calls: the path resolution it inherits from \<^verbatim>\<open>kedro.io.core\<close>, the
  file system, the four loaders of the model class and the model's \<^verbatim>\<open>save\<close>. Each is
  called at most once in a method, so each stands for the outcome of that call;
  \<open>'m\<close> is the type of models. \<^verbatim>\<open>py_str\<close> is \<^verbatim>\<open>str\<close> on an arbitrary value.
\<close>

record 'm darts_collaborators =
  kedro_get_load_path :: "py_exc + string"
  kedro_get_save_path :: "py_exc + string"
  kedro_get_filepath_str :: "string \<Rightarrow> string \<Rightarrow> string"
  os_path_dirname :: "string \<Rightarrow> string"
  os_makedirs :: "string \<Rightarrow> py_exc + unit"
  fs_exists :: "string \<Rightarrow> py_exc + bool"
  cls_load :: "string \<Rightarrow> kwargs \<Rightarrow> py_exc + 'm"
  cls_load_from_checkpoint :: "pyval \<Rightarrow> kwargs \<Rightarrow> py_exc + 'm"
  cls_load_weights :: "string \<Rightarrow> kwargs \<Rightarrow> py_exc + 'm"
  cls_load_weights_from_checkpoint :: "pyval \<Rightarrow> kwargs \<Rightarrow> py_exc + 'm"
  data_save :: "'m \<Rightarrow> string \<Rightarrow> kwargs \<Rightarrow> py_exc + unit"
  py_str :: "pyval \<Rightarrow> string"

text \<open>The calls a method makes to the collaborators that touch files, in order.\<close>

datatype io_call =
    GetLoadPath
  | GetSavePath
  | OsMakedirs string
  | FsExists string
  | ClsLoad string kwargs
  | ClsLoadFromCheckpoint pyval kwargs
  | ClsLoadWeights string kwargs
  | ClsLoadWeightsFromCheckpoint pyval kwargs
  | DataSave string kwargs

definition Darts_load ::
  "'m darts_collaborators \<Rightarrow> darts_dataset \<Rightarrow> (py_exc + 'm) \<times> io_call list" where
  "Darts_load c ds =
     (let (load_method, load_args1) =
            dict_pop_default ''load_method'' (VStr ''load'') (darts_load_args ds)
      in if load_method = VStr ''load'' then
           (case kedro_get_load_path c of
              Inl e \<Rightarrow> (Inl e, [GetLoadPath])
            | Inr p \<Rightarrow>
                (let load_path = kedro_get_filepath_str c p (darts_protocol ds)
                 in (cls_load c load_path load_args1,
                     [GetLoadPath, ClsLoad load_path load_args1])))
         else if load_method = VStr ''load_from_checkpoint'' then
           (let (model_name, load_args2) = dict_pop_default ''model_name'' VNone load_args1
            in if model_name = VNone then
                 (Inl (Raise ValueError
                    (''model_name must be provided for '' @ [CHR 0x27]
                     @ ''load_from_checkpoint'' @ [CHR 0x27] @ '' method'')), [])
               else (cls_load_from_checkpoint c model_name load_args2,
                     [ClsLoadFromCheckpoint model_name load_args2]))
         else if load_method = VStr ''load_weights'' then
           (case kedro_get_load_path c of
              Inl e \<Rightarrow> (Inl e, [GetLoadPath])
            | Inr p \<Rightarrow>
                (let load_path = kedro_get_filepath_str c p (darts_protocol ds)
                 in (cls_load_weights c load_path load_args1,
                     [GetLoadPath, ClsLoadWeights load_path load_args1])))
         else if load_method = VStr ''load_weights_from_checkpoint'' then
           (let (model_name, load_args2) = dict_pop_default ''model_name'' VNone load_args1
            in if model_name = VNone then
                 (Inl (Raise ValueError
                    (''model_name must be provided for '' @ [CHR 0x27]
                     @ ''load_weights_from_checkpoint'' @ [CHR 0x27] @ '' method'')), [])
               else (cls_load_weights_from_checkpoint c model_name load_args2,
                     [ClsLoadWeightsFromCheckpoint model_name load_args2]))
         else (Inl (Raise ValueError (''Unknown load method: '' @ py_str c load_method)), []))"


text \<open>\<^verbatim>\<open>_exists\<close>: the \<^verbatim>\<open>try\<close> block, and the handler for \<^verbatim>\<open>DatasetError\<close>.\<close>

definition Darts_exists_try :: "'m darts_collaborators \<Rightarrow> darts_dataset \<Rightarrow> py_exc + bool" where
  "Darts_exists_try c ds =
     (case kedro_get_load_path c of
        Inl e \<Rightarrow> Inl e
      | Inr p \<Rightarrow> fs_exists c (kedro_get_filepath_str c p (darts_protocol ds)))"

definition Darts_exists :: "'m darts_collaborators \<Rightarrow> darts_dataset \<Rightarrow> py_exc + bool" where
  "Darts_exists c ds =
     (case Darts_exists_try c ds of
        Inl e \<Rightarrow> (if isinstance_DatasetError e then Inr False else Inl e)
      | Inr b \<Rightarrow> Inr b)"

section \<open>A concrete instance for evaluation\<close>

text \<open>
  One concrete choice of the collaborators, on which the model can be run: the world
  is whether the database file exists together with the study names in the storage,
  a sampler or pruner object is its class name with its keyword arguments, and a
  loaded study is its name.
\<close>

definition example_collaborators ::
  "(bool \<times> string list, string \<times> kwargs, string) collaborators" where
  "example_collaborators =
     \<lparr>getenv = (\<lambda>k. if k = ''DB_USERNAME'' then Some ''optuna'' else None),
      realpath = (\<lambda>p. ''/data/'' @ p),
      URL_create = (\<lambda>drv db kw. Inr (drv @ '':///'' @ db)),
      recursion_limit = 8,
      samplers = (\<lambda>n. if n = ''TPESampler'' then Some (\<lambda>kw h. Inr (n, kw)) else None),
      pruners = (\<lambda>n. if n = ''NopPruner'' then Some (\<lambda>kw h. Inr (n, kw)) else None),
      isfile = (\<lambda>p w. fst w),
      dirname = (\<lambda>p. ''/data''),
      makedirs = (\<lambda>p w. Inr w),
      create_study = (\<lambda>s w. Inr (True, snd w @ [''no-name''])),
      get_all_study_names = (\<lambda>s w. Inr (snd w)),
      delete_study = (\<lambda>s n w. Inr (fst w, removeAll n (snd w))),
      copy_study = (\<lambda>fn fs ts tn w. Inr (fst w, snd w @ [tn])),
      load_study = (\<lambda>s n sa pr w.
         if n \<in> set (snd w) then Inr n else Inl (Raise KeyError n)),
      fetch_latest_load_version = (\<lambda>ds w.
         Inl (Raise VersionNotFoundError ''Did not find any versions'')),
      generate_timestamp = (\<lambda>w. ''2024-05-05T10.00.00.000Z''),
      str_dataset = (\<lambda>ds. ''StudyDataset'')\<rparr>"

definition example_dataset :: study_dataset where
  "example_dataset =
     \<lparr>backend = ''sqlite'', database = ''optuna.db'', storage = ''sqlite:///optuna.db'',
      study_name = ''study1'', metadata = VNone,
      filepath = Some (PurePosixPath [''/data/optuna.db'']),
      version = None, load_args = 0\<rparr>"

definition example_versioned_dataset :: study_dataset where
  "example_versioned_dataset =
     example_dataset\<lparr>version := Some \<lparr>load = None, save = Some ''2024-01-01T00.00.00''\<rparr>\<rparr>"

definition example_heap :: heap where
  "example_heap =
     [ODict [(''class'', VStr ''TPESampler''), (''n_startup_trials'', VInt 10)],
      ODict [(''sampler'', VRef 0), (''pruner'', VNone)]]"

text \<open>
  Collaborators of the model dataset on a POSIX system: \<^verbatim>\<open>os.path.dirname\<close> is
  \<^verbatim>\<open>posixpath.dirname\<close>, and \<^verbatim>\<open>os.makedirs\<close> with \<^verbatim>\<open>exist_ok=True\<close> raises
  \<^verbatim>\<open>FileNotFoundError\<close> on the empty path and succeeds on every other.
\<close>

definition example_darts_collaborators :: "string darts_collaborators" where
  "example_darts_collaborators =
     \<lparr>kedro_get_load_path = Inr ''data/06_models/darts_model.pt'',
      kedro_get_save_path = Inr ''data/06_models/darts_model.pt'',
      kedro_get_filepath_str = (\<lambda>p proto. p),
      os_path_dirname = posixpath_dirname,
      os_makedirs = (\<lambda>d.
         if d = [] then Inl (Raise FileNotFoundError ''No such file or directory'')
         else Inr ()),
      fs_exists = (\<lambda>p. Inr True),
      cls_load = (\<lambda>p kw. Inr ''model''),
      cls_load_from_checkpoint = (\<lambda>n kw. Inr ''model''),
      cls_load_weights = (\<lambda>p kw. Inr ''model''),
      cls_load_weights_from_checkpoint = (\<lambda>n kw. Inr ''model''),
      data_save = (\<lambda>m p kw. Inr ()),
      py_str = (\<lambda>v. ''?'')\<rparr>"

section \<open>Predicates of the statements and proofs\<close>

text \<open>
  A string is a relative POSIX path in normal form when no component between its
  slashes is empty or \<^verbatim>\<open>.\<close>: it is not empty and has no leading, trailing or doubled
  slash.
\<close>

definition normal_relative :: "string \<Rightarrow> bool" where
  "normal_relative s = list_all (\<lambda>x. x \<noteq> [] \<and> x \<noteq> ''.'') (split_sep CHR ''/'' s)"

text \<open>The backend operations that write a study.\<close>

fun is_delete_or_copy :: "call \<Rightarrow> bool" where
  "is_delete_or_copy (DeleteStudy s n) = True"
| "is_delete_or_copy (CopyStudy fn fs ts tn) = True"
| "is_delete_or_copy x = False"

text \<open>
  For the frame property of \<^verbatim>\<open>load\<close>: with \<open>L\<close> the size of the heap before the call,
  a value is fresh when it is not a reference below \<open>L\<close>; a heap is closed when
  every object at or above \<open>L\<close> holds fresh values only; a state of \<^verbatim>\<open>deepcopy\<close> is
  fresh when moreover its memo maps to addresses at or above \<open>L\<close>.
\<close>

fun fresh_val :: "nat \<Rightarrow> pyval \<Rightarrow> bool" where
  "fresh_val L (VRef a) = (L \<le> a)"
| "fresh_val L v = True"

definition fresh_closed :: "nat \<Rightarrow> heap \<Rightarrow> bool" where
  "fresh_closed L h =
     (L \<le> length h
      \<and> (\<forall>i < length h. L \<le> i \<longrightarrow> list_all (fresh_val L) (elements (h ! i))))"

definition fresh_state :: "nat \<Rightarrow> memo \<times> heap \<Rightarrow> bool" where
  "fresh_state L s = (list_all (\<lambda>p. L \<le> snd p) (fst s) \<and> fresh_closed L (snd s))"

section \<open>Theorems\<close>

subsection \<open>Resolution without versioning\<close>

text \<open>
  Claim C4. For every logical name, when versioning is disabled (the dataset has no
  \<^verbatim>\<open>Version\<close>), the resolved load identifier and the resolved save identifier are
  both the study name, unchanged; resolving the save identifier touches nothing.
\<close>

theorem unversioned_resolution_is_study_name:
  assumes "version ds = None"
  shows "get_load_study_name c ds w = Inr (study_name ds)
       \<and> get_save_study_name c ds st = (Inr (study_name ds), st)"
  using assms by (simp add: get_load_study_name_def get_save_study_name_def)

theorem unversioned_resolution_is_study_name_witness:
  "version example_dataset = None
   \<and> get_load_study_name example_collaborators example_dataset (True, []) = Inr ''study1''
   \<and> get_save_study_name example_collaborators example_dataset
        \<lparr>heap = [], world = (True, []), calls = []\<rparr>
      = (Inr ''study1'', \<lparr>heap = [], world = (True, []), calls = []\<rparr>)"
proof -
  have v: "version example_dataset = None"
    by (simp add: example_dataset_def)
  have n: "study_name example_dataset = ''study1''"
    by (simp add: example_dataset_def)
  from unversioned_resolution_is_study_name [OF v, of example_collaborators "(True, [])"
      "\<lparr>heap = [], world = (True, []), calls = []\<rparr>"]
  show ?thesis using v n by simp
qed

subsection \<open>Credentials of the constructor\<close>

text \<open>
  Claim C1. \<^verbatim>\<open>StudyDataset.__init__\<close> discards the \<^verbatim>\<open>credentials\<close> argument: for any two
  values passed as credentials (a dict or \<^verbatim>\<open>None\<close>), with everything else equal, the
  constructor gives the same result, and the storage URL of a constructed dataset is
  the one built from the backend, the database and the four environment variables
  \<^verbatim>\<open>DB_USERNAME\<close>, \<^verbatim>\<open>DB_PASSWORD\<close>, \<^verbatim>\<open>DB_HOST\<close> and \<^verbatim>\<open>DB_PORT\<close>.
\<close>

theorem init_discards_credentials:
  "StudyDataset_init c b d n la v cred1 md h = StudyDataset_init c b d n la v cred2 md h
   \<and> (\<forall>ds h'. StudyDataset_init c b d n la v cred1 md h = Inr (ds, h') \<longrightarrow>
        URL_create c b d
          [(''username'', os_getenv c ''DB_USERNAME''),
           (''password'', os_getenv c ''DB_PASSWORD''),
           (''host'', os_getenv c ''DB_HOST''),
           (''port'', os_getenv c ''DB_PORT'')] = Inr (storage ds))"
  by (auto simp add: StudyDataset_init_def dict_update_def Let_def alloc_def
      split: sum.splits)

theorem init_discards_credentials_witness:
  "StudyDataset_init example_collaborators ''sqlite'' ''optuna.db'' ''study1'' VNone None
      VNone VNone [ODict [(''username'', VStr ''alice''), (''password'', VStr ''secret'')]]
   = StudyDataset_init example_collaborators ''sqlite'' ''optuna.db'' ''study1'' VNone None
      (VRef 0) VNone [ODict [(''username'', VStr ''alice''), (''password'', VStr ''secret'')]]
   \<and> (\<exists>ds h'. StudyDataset_init example_collaborators ''sqlite'' ''optuna.db'' ''study1''
         VNone None (VRef 0) VNone
         [ODict [(''username'', VStr ''alice''), (''password'', VStr ''secret'')]] = Inr (ds, h')
       \<and> storage ds = ''sqlite:///optuna.db''
       \<and> URL_create example_collaborators ''sqlite'' ''optuna.db''
            [(''username'', VStr ''optuna''), (''password'', VNone),
             (''host'', VNone), (''port'', VNone)] = Inr (storage ds))"
  using init_discards_credentials [of example_collaborators "''sqlite''" "''optuna.db''"
      "''study1''" VNone None VNone VNone
      "[ODict [(''username'', VStr ''alice''), (''password'', VStr ''secret'')]]" "VRef 0"]
  by (simp add: StudyDataset_init_def dict_update_def Let_def alloc_def
      example_collaborators_def os_getenv_def load_args_or_empty_def truthy_def
      DEFAULT_LOAD_ARGS_def)

subsection \<open>Version conflict on save\<close>

lemma study_name_exists_True:
  "study_name_exists c ds p st = (Inr True, st') \<Longrightarrow>
     st' = st\<lparr>calls := calls st @ [GetAllStudyNames (storage ds)]\<rparr>"
  by (auto simp add: study_name_exists_def Let_def split: if_splits option.splits sum.splits)

text \<open>
  Claim C2. With versioning enabled, if the existence check reports the versioned
  save name as present, \<^verbatim>\<open>save\<close> fails with a \<^verbatim>\<open>DatasetError\<close>; the only backend
  call made is the listing of study names by the check itself, so neither the
  delete nor the copy operation is invoked and the world is as it was.
\<close>

theorem save_version_conflict:
  assumes "version ds = Some ver"
      and "resolve_save_version c ds (world st) = Some sv"
      and "study_name_exists c ds (path_str (get_versioned_path ds sv)) st = (Inr True, st')"
  shows "StudyDataset_save c ds study st =
           (Inl (Raise DatasetError
                   (''Study name '' @ [CHR 0x27] @ path_str (get_versioned_path ds sv)
                    @ [CHR 0x27] @ '' for '' @ str_dataset c ds
                    @ '' must not exist if versioning is enabled.'')), st')
         \<and> calls st' = calls st @ [GetAllStudyNames (storage ds)]
         \<and> filter is_delete_or_copy (calls st') = filter is_delete_or_copy (calls st)
         \<and> world st' = world st"
  using assms study_name_exists_True [OF assms(3)]
  by (simp add: StudyDataset_save_def get_save_study_name_def Let_def)

theorem save_version_conflict_witness:
  "version example_versioned_dataset = Some \<lparr>load = None, save = Some ''2024-01-01T00.00.00''\<rparr>
   \<and> resolve_save_version example_collaborators example_versioned_dataset
        (True, [''study1/2024-01-01T00.00.00/study1'']) = Some ''2024-01-01T00.00.00''
   \<and> study_name_exists example_collaborators example_versioned_dataset
        ''study1/2024-01-01T00.00.00/study1''
        \<lparr>heap = [], world = (True, [''study1/2024-01-01T00.00.00/study1'']), calls = []\<rparr>
      = (Inr True,
         \<lparr>heap = [], world = (True, [''study1/2024-01-01T00.00.00/study1'']),
          calls = [GetAllStudyNames ''sqlite:///optuna.db'']\<rparr>)
   \<and> StudyDataset_save example_collaborators example_versioned_dataset
        \<lparr>from_study_name = ''tmp'', from_storage = ''memory''\<rparr>
        \<lparr>heap = [], world = (True, [''study1/2024-01-01T00.00.00/study1'']), calls = []\<rparr>
      = (Inl (Raise DatasetError
           (''Study name '' @ [CHR 0x27] @ ''study1/2024-01-01T00.00.00/study1'' @ [CHR 0x27]
            @ '' for StudyDataset must not exist if versioning is enabled.'')),
         \<lparr>heap = [], world = (True, [''study1/2024-01-01T00.00.00/study1'']),
          calls = [GetAllStudyNames ''sqlite:///optuna.db'']\<rparr>)"
proof -
  let ?st = "\<lparr>heap = [], world = (True, [''study1/2024-01-01T00.00.00/study1'']),
              calls = []\<rparr> :: (bool \<times> string list) state"
  let ?st' = "\<lparr>heap = [], world = (True, [''study1/2024-01-01T00.00.00/study1'']),
               calls = [GetAllStudyNames ''sqlite:///optuna.db'']\<rparr> :: (bool \<times> string list) state"
  have v: "version example_versioned_dataset
           = Some \<lparr>load = None, save = Some ''2024-01-01T00.00.00''\<rparr>"
    by (simp add: example_versioned_dataset_def example_dataset_def)
  have r: "resolve_save_version example_collaborators example_versioned_dataset (world ?st)
           = Some ''2024-01-01T00.00.00''"
    by (simp add: resolve_save_version_def v)
  have p: "path_str (get_versioned_path example_versioned_dataset ''2024-01-01T00.00.00'')
           = ''study1/2024-01-01T00.00.00/study1''"
    by (simp add: get_versioned_path_def truediv_def truediv_str_def path_str_def
        load_parts_def example_versioned_dataset_def example_dataset_def)
  have e: "study_name_exists example_collaborators example_versioned_dataset
             ''study1/2024-01-01T00.00.00/study1'' ?st = (Inr True, ?st')"
    by (simp add: study_name_exists_def example_versioned_dataset_def example_dataset_def
        example_collaborators_def path_str_def load_parts_def)
  have s: "str_dataset example_collaborators example_versioned_dataset = ''StudyDataset''"
    by (simp add: example_collaborators_def)
  from save_version_conflict [OF v r, of ?st'
      "\<lparr>from_study_name = ''tmp'', from_storage = ''memory''\<rparr>"] e p s
  show ?thesis using v r by simp
qed

subsection \<open>The versioned identifier\<close>

lemma split_sep_nonempty: "split_sep c s \<noteq> []"
  by (induction s) (auto split: list.splits)

lemma split_sep_append:
  "split_sep c (a @ c # b) = split_sep c a @ split_sep c b"
  by (induction a) (auto split: list.splits simp: split_sep_nonempty)

lemma join_split: "join_sep c (split_sep c s) = s"
proof (induction s)
  case Nil
  show ?case by simp
next
  case (Cons x xs)
  show ?case
  proof (cases "x = c")
    case True
    with Cons show ?thesis
      by (cases "split_sep c xs") (auto simp: split_sep_nonempty)
  next
    case False
    with Cons show ?thesis
      by (cases "split_sep c xs"; cases "tl (split_sep c xs)") (auto simp: split_sep_nonempty)
  qed
qed

lemma split_sep_snoc: "last (split_sep c (s @ [c])) = []"
  using split_sep_append [of c s "[]"] by simp

lemma normal_relative_nonempty: "normal_relative s \<Longrightarrow> s \<noteq> []"
  by (auto simp: normal_relative_def)

lemma normal_relative_hd: "normal_relative s \<Longrightarrow> hd s \<noteq> CHR ''/''"
  by (cases s) (auto simp: normal_relative_def)

lemma normal_relative_last:
  assumes "normal_relative s"
  shows "last s \<noteq> CHR ''/''"
proof
  assume l: "last s = CHR ''/''"
  from assms have "s \<noteq> []" by (rule normal_relative_nonempty)
  then have "s = butlast s @ [CHR ''/'']" using l by (metis append_butlast_last_id)
  then have "last (split_sep CHR ''/'' s) = []" by (metis split_sep_snoc)
  moreover have "last (split_sep CHR ''/'' s) \<in> set (split_sep CHR ''/'' s)"
    by (simp add: split_sep_nonempty)
  ultimately show False using assms by (auto simp: normal_relative_def list_all_iff)
qed

lemma versioned_path_str:
  assumes n: "normal_relative (study_name ds)" and v: "normal_relative ver"
  shows "path_str (get_versioned_path ds ver)
         = study_name ds @ ''/'' @ ver @ ''/'' @ study_name ds"
proof -
  let ?n = "study_name ds"
  let ?p = "?n @ CHR ''/'' # ver @ CHR ''/'' # ?n"
  have j: "posixpath_join ?n [ver, ?n] = ?p"
    using normal_relative_nonempty [OF n] normal_relative_nonempty [OF v]
      normal_relative_hd [OF n] normal_relative_hd [OF v]
      normal_relative_last [OF n] normal_relative_last [OF v]
    by simp
  have ne: "?p \<noteq> []" by simp
  obtain x xs where nx: "?n = x # xs"
    using normal_relative_nonempty [OF n] by (cases ?n) auto
  have hx: "x \<noteq> CHR ''/''" using normal_relative_hd [OF n] nx by simp
  have sr: "splitroot ?p = ([], ?p)" using nx hx by simp
  have sp: "split_sep CHR ''/'' ?p
        = split_sep CHR ''/'' ?n @ split_sep CHR ''/'' ver @ split_sep CHR ''/'' ?n"
    by (simp add: split_sep_append)
  have "list_all (\<lambda>x. x \<noteq> [] \<and> x \<noteq> ''.'') (split_sep CHR ''/'' ?p)"
    using n v unfolding sp by (simp add: normal_relative_def)
  then have f: "filter (\<lambda>x. x \<noteq> [] \<and> x \<noteq> ''.'') (split_sep CHR ''/'' ?p)
                = split_sep CHR ''/'' ?p"
    by (simp add: list_all_iff)
  have lp: "load_parts (get_versioned_path ds ver) = ([], split_sep CHR ''/'' ?p)"
    unfolding load_parts_def get_versioned_path_def truediv_def truediv_str_def Let_def
    using j sr f ne by simp
  show ?thesis
    unfolding path_str_def lp using join_split [of "CHR ''/''" ?p] ne by (simp add: Let_def)
qed

text \<open>
  Claim C3, as stated, fails: not every logical name and version token give the
  three-segment string. \<^verbatim>\<open>PurePosixPath\<close> restarts at an absolute segment, so for the
  study name \<^verbatim>\<open>/s\<close> and the version \<^verbatim>\<open>v\<close> the versioned identifier is \<^verbatim>\<open>/s\<close>, not
  \<^verbatim>\<open>/s/v//s\<close>.
\<close>

theorem versioned_identifier_absolute_name_counterexample:
  "path_str (get_versioned_path (example_dataset\<lparr>study_name := ''/s''\<rparr>) ''v'') = ''/s''
   \<and> path_str (get_versioned_path (example_dataset\<lparr>study_name := ''/s''\<rparr>) ''v'')
       \<noteq> ''/s'' @ ''/'' @ ''v'' @ ''/'' @ ''/s''"
  by (simp add: get_versioned_path_def truediv_def truediv_str_def path_str_def
      load_parts_def example_dataset_def)

text \<open>
  Claim C3, amended. For every logical name and version token that are relative
  POSIX paths in normal form (not empty, no leading, trailing or doubled slash, no
  \<^verbatim>\<open>.\<close> component), the versioned identifier is the string
  \<^verbatim>\<open>logical_name/version_token/logical_name\<close>; and with versioning enabled, that token
  pinned as the save version and no study of that identifier in the storage, it is the
  resolved save identifier. At the name \<^verbatim>\<open>study1\<close> and the version
  \<^verbatim>\<open>2024-01-01T00.00.00\<close> this is \<^verbatim>\<open>study1/2024-01-01T00.00.00/study1\<close>.
\<close>

theorem versioned_identifier_three_segments:
  assumes "normal_relative (study_name ds)" and "normal_relative ver"
  shows "path_str (get_versioned_path ds ver)
           = study_name ds @ ''/'' @ ver @ ''/'' @ study_name ds
         \<and> (\<forall>vs st st'. version ds = Some vs \<and> save vs = Some ver
              \<and> study_name_exists c ds (study_name ds @ ''/'' @ ver @ ''/'' @ study_name ds) st
                  = (Inr False, st')
              \<longrightarrow> get_save_study_name c ds st
                  = (Inr (study_name ds @ ''/'' @ ver @ ''/'' @ study_name ds), st'))"
  using versioned_path_str [OF assms] normal_relative_nonempty [OF assms(2)]
  by (auto simp add: get_save_study_name_def resolve_save_version_def Let_def)

theorem versioned_identifier_three_segments_witness:
  "normal_relative (study_name example_versioned_dataset)
   \<and> normal_relative ''2024-01-01T00.00.00''
   \<and> path_str (get_versioned_path example_versioned_dataset ''2024-01-01T00.00.00'')
       = ''study1/2024-01-01T00.00.00/study1''
   \<and> get_save_study_name example_collaborators example_versioned_dataset
        \<lparr>heap = [], world = (True, []), calls = []\<rparr>
      = (Inr ''study1/2024-01-01T00.00.00/study1'',
         \<lparr>heap = [], world = (True, []), calls = [GetAllStudyNames ''sqlite:///optuna.db'']\<rparr>)"
proof -
  let ?st = "\<lparr>heap = [], world = (True, []), calls = []\<rparr> :: (bool \<times> string list) state"
  let ?st' = "\<lparr>heap = [], world = (True, []),
               calls = [GetAllStudyNames ''sqlite:///optuna.db'']\<rparr> :: (bool \<times> string list) state"
  have sn: "study_name example_versioned_dataset = ''study1''"
    by (simp add: example_versioned_dataset_def example_dataset_def)
  have n: "normal_relative (study_name example_versioned_dataset)"
    by (simp add: sn normal_relative_def)
  have v: "normal_relative ''2024-01-01T00.00.00''"
    by (simp add: normal_relative_def)
  have ver: "version example_versioned_dataset
             = Some \<lparr>load = None, save = Some ''2024-01-01T00.00.00''\<rparr>"
    by (simp add: example_versioned_dataset_def example_dataset_def)
  have e: "study_name_exists example_collaborators example_versioned_dataset
             ''study1/2024-01-01T00.00.00/study1'' ?st = (Inr False, ?st')"
    by (simp add: study_name_exists_def example_versioned_dataset_def example_dataset_def
        example_collaborators_def path_str_def load_parts_def)
  from versioned_identifier_three_segments [OF n v, of example_collaborators]
  show ?thesis using n v sn ver e by simp
qed

subsection \<open>Building strategy objects from a configuration\<close>

lemma deref_store: "a < length h \<Longrightarrow> deref (store h a ob) a = Some ob"
  by (simp add: deref_def store_def)

lemma deref_lt: "deref h a = Some ob \<Longrightarrow> a < length h"
  by (simp add: deref_def split: if_splits)

lemma get_object_from_config_None:
  "get_object_from_config reg kind entry ds VNone st = (Inr None, st)"
  by (simp add: get_object_from_config_def)

lemma get_object_from_config_missing:
  "deref (heap st) a = Some (ODict d) \<Longrightarrow> map_of d ''class'' = None \<Longrightarrow>
   get_object_from_config reg kind entry ds (VRef a) st =
     (Inl (Raise ValueError
        (''Optuna '' @ kind @ '' `class` should be specified when trying to ''
         @ ''load study named `'' @ study_name ds @ ''` with a '' @ kind @ ''.'')), st)"
  by (simp add: get_object_from_config_def py_contains_def dict_contains_def)

lemma get_object_from_config_build:
  assumes "deref (heap st) a = Some (ODict d)"
      and "map_of d ''class'' = Some (VStr X)"
      and "reg X = Some ctor"
  shows "get_object_from_config reg kind entry ds (VRef a) st =
     (case ctor (AList.delete ''class'' d)
             (store (heap st) a (ODict (AList.delete ''class'' d))) of
        Inl e \<Rightarrow> Inl e
      | Inr ob \<Rightarrow> Inr (Some ob),
      st\<lparr>heap := store (heap st) a (ODict (AList.delete ''class'' d)),
         calls := calls st @ [entry X (AList.delete ''class'' d)]\<rparr>)"
  using assms deref_lt [OF assms(1)]
  by (simp add: get_object_from_config_def py_contains_def dict_contains_def heap_pop_def
      dict_pop_def py_getattr_def unpack_kwargs_def deref_store split: sum.splits)

lemma get_object_from_config_consumes:
  assumes "deref (heap st) a = Some (ODict d)"
      and "map_of d ''class'' = Some x"
  shows "deref (heap (snd (get_object_from_config reg kind entry ds (VRef a) st))) a
         = Some (ODict (AList.delete ''class'' d))"
  using assms deref_lt [OF assms(1)]
  by (simp add: get_object_from_config_def py_contains_def dict_contains_def heap_pop_def
      dict_pop_def deref_store split: sum.splits prod.splits)

lemma delete_is_filter: "AList.delete k d = filter (\<lambda>kv. fst kv \<noteq> k) d"
  by (induction d) auto

text \<open>
  Claim C7. For a configuration dict with the entry \<^verbatim>\<open>class\<close> naming \<open>X\<close>, building
  the sampler (likewise the pruner) looks \<open>X\<close> up in the registry and calls the class
  found there exactly once, with precisely the remaining entries as keyword
  arguments: the result is that call's result and the log of calls grows by that one
  construction. The dict passed in is changed in place: whatever the registry
  holds, after the call the object at the configuration's address is the dict
  without the key \<^verbatim>\<open>class\<close>.
\<close>

theorem build_from_config_consumes_class:
  assumes "deref (heap st) a = Some (ODict d)"
      and "map_of d ''class'' = Some (VStr X)"
  shows "(\<forall>ctor. samplers c X = Some ctor \<longrightarrow>
            get_sampler_from_config c ds (VRef a) st =
              (case ctor (AList.delete ''class'' d)
                      (store (heap st) a (ODict (AList.delete ''class'' d))) of
                 Inl e \<Rightarrow> Inl e
               | Inr ob \<Rightarrow> Inr (Some ob),
               st\<lparr>heap := store (heap st) a (ODict (AList.delete ''class'' d)),
                  calls := calls st @ [SamplerInit X (AList.delete ''class'' d)]\<rparr>))
       \<and> (\<forall>ctor. pruners c X = Some ctor \<longrightarrow>
            get_pruner_from_config c ds (VRef a) st =
              (case ctor (AList.delete ''class'' d)
                      (store (heap st) a (ODict (AList.delete ''class'' d))) of
                 Inl e \<Rightarrow> Inl e
               | Inr ob \<Rightarrow> Inr (Some ob),
               st\<lparr>heap := store (heap st) a (ODict (AList.delete ''class'' d)),
                  calls := calls st @ [PrunerInit X (AList.delete ''class'' d)]\<rparr>))
       \<and> deref (heap (snd (get_sampler_from_config c ds (VRef a) st))) a
           = Some (ODict (AList.delete ''class'' d))
       \<and> deref (heap (snd (get_pruner_from_config c ds (VRef a) st))) a
           = Some (ODict (AList.delete ''class'' d))
       \<and> \<not> dict_contains ''class'' (AList.delete ''class'' d)
       \<and> AList.delete ''class'' d = filter (\<lambda>kv. fst kv \<noteq> ''class'') d"
proof -
  have s: "\<forall>ctor. samplers c X = Some ctor \<longrightarrow>
            get_sampler_from_config c ds (VRef a) st =
              (case ctor (AList.delete ''class'' d)
                      (store (heap st) a (ODict (AList.delete ''class'' d))) of
                 Inl e \<Rightarrow> Inl e
               | Inr ob \<Rightarrow> Inr (Some ob),
               st\<lparr>heap := store (heap st) a (ODict (AList.delete ''class'' d)),
                  calls := calls st @ [SamplerInit X (AList.delete ''class'' d)]\<rparr>)"
    unfolding get_sampler_from_config_def
    using get_object_from_config_build [OF assms] by blast
  have p: "\<forall>ctor. pruners c X = Some ctor \<longrightarrow>
            get_pruner_from_config c ds (VRef a) st =
              (case ctor (AList.delete ''class'' d)
                      (store (heap st) a (ODict (AList.delete ''class'' d))) of
                 Inl e \<Rightarrow> Inl e
               | Inr ob \<Rightarrow> Inr (Some ob),
               st\<lparr>heap := store (heap st) a (ODict (AList.delete ''class'' d)),
                  calls := calls st @ [PrunerInit X (AList.delete ''class'' d)]\<rparr>)"
    unfolding get_pruner_from_config_def
    using get_object_from_config_build [OF assms] by blast
  have hs: "deref (heap (snd (get_sampler_from_config c ds (VRef a) st))) a
           = Some (ODict (AList.delete ''class'' d))"
    unfolding get_sampler_from_config_def
    by (rule get_object_from_config_consumes [OF assms])
  have hp: "deref (heap (snd (get_pruner_from_config c ds (VRef a) st))) a
           = Some (ODict (AList.delete ''class'' d))"
    unfolding get_pruner_from_config_def
    by (rule get_object_from_config_consumes [OF assms])
  have nc: "\<not> dict_contains ''class'' (AList.delete ''class'' d)"
    by (simp add: dict_contains_def delete_conv')
  have fl: "AList.delete ''class'' d = filter (\<lambda>kv. fst kv \<noteq> ''class'') d"
    by (rule delete_is_filter)
  from s p hs hp nc fl show ?thesis by blast
qed

theorem build_from_config_consumes_class_witness:
  "deref example_heap 0
     = Some (ODict [(''class'', VStr ''TPESampler''), (''n_startup_trials'', VInt 10)])
   \<and> map_of [(''class'', VStr ''TPESampler''), (''n_startup_trials'', VInt 10)] ''class''
       = Some (VStr ''TPESampler'')
   \<and> get_sampler_from_config example_collaborators example_dataset (VRef 0)
        \<lparr>heap = example_heap, world = (True, []), calls = []\<rparr>
      = (Inr (Some (''TPESampler'', [(''n_startup_trials'', VInt 10)])),
         \<lparr>heap = [ODict [(''n_startup_trials'', VInt 10)],
                  ODict [(''sampler'', VRef 0), (''pruner'', VNone)]],
          world = (True, []),
          calls = [SamplerInit ''TPESampler'' [(''n_startup_trials'', VInt 10)]]\<rparr>)"
proof -
  let ?st = "\<lparr>heap = example_heap, world = (True, []), calls = []\<rparr>
             :: (bool \<times> string list) state"
  have d: "deref (heap ?st) 0
     = Some (ODict [(''class'', VStr ''TPESampler''), (''n_startup_trials'', VInt 10)])"
    by (simp add: deref_def example_heap_def)
  have m: "map_of [(''class'', VStr ''TPESampler''), (''n_startup_trials'', VInt 10)] ''class''
       = Some (VStr ''TPESampler'')"
    by simp
  have s: "samplers example_collaborators ''TPESampler''
           = Some (\<lambda>kw h. Inr (''TPESampler'', kw))"
    by (simp add: example_collaborators_def)
  from build_from_config_consumes_class [OF d m, of example_collaborators example_dataset] s
  show ?thesis using d by (simp add: store_def example_heap_def)
qed

text \<open>
  Claim C8. For every configuration dict that has no \<^verbatim>\<open>class\<close> key, building the
  sampler or the pruner fails with a \<^verbatim>\<open>ValueError\<close> whose message contains the study
  name, whatever the registries hold, and leaves the state as it was; building from
  \<^verbatim>\<open>None\<close> returns \<^verbatim>\<open>None\<close>.
\<close>

theorem build_from_config_without_class:
  "(\<forall>a d. deref (heap st) a = Some (ODict d) \<and> \<not> dict_contains ''class'' d \<longrightarrow>
       get_sampler_from_config c ds (VRef a) st =
         (Inl (Raise ValueError
            (''Optuna sampler `class` should be specified when trying to load study named `''
             @ study_name ds @ ''` with a sampler.'')), st)
     \<and> get_pruner_from_config c ds (VRef a) st =
         (Inl (Raise ValueError
            (''Optuna pruner `class` should be specified when trying to load study named `''
             @ study_name ds @ ''` with a pruner.'')), st))
   \<and> get_sampler_from_config c ds VNone st = (Inr None, st)
   \<and> get_pruner_from_config c ds VNone st = (Inr None, st)"
  by (auto simp add: get_sampler_from_config_def get_pruner_from_config_def
      get_object_from_config_None get_object_from_config_missing dict_contains_def)

theorem build_from_config_without_class_witness:
  "deref example_heap 1 = Some (ODict [(''sampler'', VRef 0), (''pruner'', VNone)])
   \<and> \<not> dict_contains ''class'' [(''sampler'', VRef 0), (''pruner'', VNone)]
   \<and> get_sampler_from_config example_collaborators example_dataset (VRef 1)
        \<lparr>heap = example_heap, world = (True, []), calls = []\<rparr>
      = (Inl (Raise ValueError
           (''Optuna sampler `class` should be specified when trying to load study named `''
            @ ''study1'' @ ''` with a sampler.'')),
         \<lparr>heap = example_heap, world = (True, []), calls = []\<rparr>)"
proof -
  let ?st = "\<lparr>heap = example_heap, world = (True, []), calls = []\<rparr>
             :: (bool \<times> string list) state"
  have d: "deref (heap ?st) 1 = Some (ODict [(''sampler'', VRef 0), (''pruner'', VNone)])"
    by (simp add: deref_def example_heap_def)
  have m: "\<not> dict_contains ''class'' [(''sampler'', VRef 0), (''pruner'', VNone)]"
    by (simp add: dict_contains_def)
  have n: "study_name example_dataset = ''study1''"
    by (simp add: example_dataset_def)
  from build_from_config_without_class [of ?st example_collaborators example_dataset] d m n
  show ?thesis by simp
qed

subsection \<open>\<^verbatim>\<open>DartsTorchModelDataset\<close>: existence check, load and save\<close>

text \<open>
  Claim C5, as stated, fails: \<^verbatim>\<open>_exists\<close> does not turn every exception of the
  file-system collaborator into \<^verbatim>\<open>False\<close>. The handler is \<^verbatim>\<open>except DatasetError\<close>, so
  a \<^verbatim>\<open>PermissionError\<close> raised by \<^verbatim>\<open>fs.exists\<close> leaves \<^verbatim>\<open>_exists\<close> as it is.
\<close>

theorem exists_propagates_other_errors_counterexample:
  "Darts_exists
     (example_darts_collaborators\<lparr>fs_exists := \<lambda>p. Inl (Raise PermissionError ''denied'')\<rparr>)
     \<lparr>darts_protocol = ''file'', darts_load_args = [], darts_save_args = []\<rparr>
   = Inl (Raise PermissionError ''denied'')"
  by (simp add: Darts_exists_def Darts_exists_try_def example_darts_collaborators_def)

text \<open>
  Claim C5, amended. \<^verbatim>\<open>_exists\<close> resolves the load path and asks the file system about
  it. When the resolution of the load path raises, or the file-system collaborator
  raises on the resolved path, \<^verbatim>\<open>_exists\<close> returns \<^verbatim>\<open>False\<close> if the exception is a
  \<^verbatim>\<open>DatasetError\<close> (the class or any subclass, such as \<^verbatim>\<open>VersionNotFoundError\<close>), and
  raises that exception otherwise; when nothing is raised it returns the answer of
  the file system for the resolved path.
\<close>

theorem exists_catches_DatasetError_only:
  "(\<forall>e. kedro_get_load_path c = Inl e \<longrightarrow>
        Darts_exists c ds = (if isinstance_DatasetError e then Inr False else Inl e))
   \<and> (\<forall>p e. kedro_get_load_path c = Inr p
          \<and> fs_exists c (kedro_get_filepath_str c p (darts_protocol ds)) = Inl e \<longrightarrow>
        Darts_exists c ds = (if isinstance_DatasetError e then Inr False else Inl e))
   \<and> (\<forall>p b. kedro_get_load_path c = Inr p
          \<and> fs_exists c (kedro_get_filepath_str c p (darts_protocol ds)) = Inr b \<longrightarrow>
        Darts_exists c ds = Inr b)"
  by (simp add: Darts_exists_def Darts_exists_try_def)

theorem exists_catches_DatasetError_only_witness:
  "Darts_exists
     (example_darts_collaborators
        \<lparr>kedro_get_load_path := Inl (Raise VersionNotFoundError ''no versions'')\<rparr>)
     \<lparr>darts_protocol = ''file'', darts_load_args = [], darts_save_args = []\<rparr>
   = Inr False
   \<and> Darts_exists
     (example_darts_collaborators
        \<lparr>kedro_get_load_path := Inl (Raise KeyError ''version'')\<rparr>)
     \<lparr>darts_protocol = ''file'', darts_load_args = [], darts_save_args = []\<rparr>
   = Inl (Raise KeyError ''version'')
   \<and> Darts_exists
     (example_darts_collaborators
        \<lparr>fs_exists := \<lambda>p. if p = ''data/06_models/darts_model.pt''
                           then Inl (Raise (Subclass ''StorageError'' DatasetAlreadyExistsError)
                                       ''busy'')
                           else Inr True\<rparr>)
     \<lparr>darts_protocol = ''file'', darts_load_args = [], darts_save_args = []\<rparr>
   = Inr False
   \<and> Darts_exists
     (example_darts_collaborators
        \<lparr>fs_exists := \<lambda>p. if p = ''data/06_models/darts_model.pt''
                           then Inl (Raise OSError ''input/output error'')
                           else Inr True\<rparr>)
     \<lparr>darts_protocol = ''file'', darts_load_args = [], darts_save_args = []\<rparr>
   = Inl (Raise OSError ''input/output error'')
   \<and> Darts_exists
     (example_darts_collaborators
        \<lparr>fs_exists := \<lambda>p. Inr (p \<noteq> ''data/06_models/darts_model.pt'')\<rparr>)
     \<lparr>darts_protocol = ''file'', darts_load_args = [], darts_save_args = []\<rparr>
   = Inr False
   \<and> Darts_exists example_darts_collaborators
     \<lparr>darts_protocol = ''file'', darts_load_args = [], darts_save_args = []\<rparr>
   = Inr True"
proof -
  let ?ds = "\<lparr>darts_protocol = ''file'', darts_load_args = [], darts_save_args = []\<rparr>"
  let ?c1 = "example_darts_collaborators
        \<lparr>kedro_get_load_path := Inl (Raise VersionNotFoundError ''no versions'')\<rparr>"
  let ?c2 = "example_darts_collaborators
        \<lparr>kedro_get_load_path := Inl (Raise KeyError ''version'')\<rparr>"
  let ?c3 = "example_darts_collaborators
        \<lparr>fs_exists := \<lambda>p. if p = ''data/06_models/darts_model.pt''
                           then Inl (Raise (Subclass ''StorageError'' DatasetAlreadyExistsError)
                                       ''busy'')
                           else Inr True\<rparr>"
  let ?c4 = "example_darts_collaborators
        \<lparr>fs_exists := \<lambda>p. if p = ''data/06_models/darts_model.pt''
                           then Inl (Raise OSError ''input/output error'')
                           else Inr True\<rparr>"
  let ?c5 = "example_darts_collaborators
        \<lparr>fs_exists := \<lambda>p. Inr (p \<noteq> ''data/06_models/darts_model.pt'')\<rparr>"
  have 1: "Darts_exists ?c1 ?ds = Inr False"
    using exists_catches_DatasetError_only [of ?c1 ?ds]
    by (simp add: example_darts_collaborators_def)
  have 2: "Darts_exists ?c2 ?ds = Inl (Raise KeyError ''version'')"
    using exists_catches_DatasetError_only [of ?c2 ?ds]
    by (simp add: example_darts_collaborators_def)
  have 3: "Darts_exists ?c3 ?ds = Inr False"
    using exists_catches_DatasetError_only [of ?c3 ?ds]
    by (simp add: example_darts_collaborators_def)
  have 4: "Darts_exists ?c4 ?ds = Inl (Raise OSError ''input/output error'')"
    using exists_catches_DatasetError_only [of ?c4 ?ds]
    by (simp add: example_darts_collaborators_def)
  have 5: "Darts_exists ?c5 ?ds = Inr False"
    using exists_catches_DatasetError_only [of ?c5 ?ds]
    by (simp add: example_darts_collaborators_def)
  have 6: "Darts_exists example_darts_collaborators ?ds = Inr True"
    using exists_catches_DatasetError_only [of example_darts_collaborators ?ds]
    by (auto simp add: example_darts_collaborators_def)
  from 1 2 3 4 5 6 show ?thesis by simp
qed

lemma map_of_delete_other: "k \<noteq> k' \<Longrightarrow> map_of (AList.delete k d) k' = map_of d k'"
  by (simp add: delete_conv')

text \<open>
  Claim C6. When \<^verbatim>\<open>load_method\<close> is \<^verbatim>\<open>load_from_checkpoint\<close> or
  \<^verbatim>\<open>load_weights_from_checkpoint\<close> and \<^verbatim>\<open>load_args\<close> has no \<^verbatim>\<open>model_name\<close> entry,
  \<^verbatim>\<open>load\<close> fails with a \<^verbatim>\<open>ValueError\<close> that asks for \<^verbatim>\<open>model_name\<close>, and it has made
  no call to the path resolution, the file system or the model class.
\<close>

theorem load_from_checkpoint_needs_model_name:
  assumes "map_of (darts_load_args ds) ''load_method'' = Some (VStr m)"
      and "m = ''load_from_checkpoint'' \<or> m = ''load_weights_from_checkpoint''"
      and "map_of (darts_load_args ds) ''model_name'' = None"
  shows "Darts_load c ds =
           (Inl (Raise ValueError (''model_name must be provided for '' @ [CHR 0x27] @ m
                                   @ [CHR 0x27] @ '' method'')), [])"
  using assms
  by (auto simp add: Darts_load_def dict_pop_default_def map_of_delete_other)

theorem load_from_checkpoint_needs_model_name_witness:
  "map_of [(''load_method'', VStr ''load_from_checkpoint''), (''best'', VBool True)]
      ''load_method'' = Some (VStr ''load_from_checkpoint'')
   \<and> map_of [(''load_method'', VStr ''load_from_checkpoint''), (''best'', VBool True)]
      ''model_name'' = None
   \<and> Darts_load example_darts_collaborators
       \<lparr>darts_protocol = ''file'',
        darts_load_args = [(''load_method'', VStr ''load_from_checkpoint''),
                           (''best'', VBool True)],
        darts_save_args = []\<rparr>
     = (Inl (Raise ValueError
          (''model_name must be provided for '' @ [CHR 0x27] @ ''load_from_checkpoint''
           @ [CHR 0x27] @ '' method'')), [])"
  using load_from_checkpoint_needs_model_name
    [of "\<lparr>darts_protocol = ''file'',
          darts_load_args = [(''load_method'', VStr ''load_from_checkpoint''),
                             (''best'', VBool True)],
          darts_save_args = []\<rparr>" "''load_from_checkpoint''" example_darts_collaborators]
  by simp




subsection \<open>\<^verbatim>\<open>load\<close> leaves the stored arguments alone\<close>

lemma fresh_closed_store:
  assumes "fresh_closed L h" and "L \<le> a" and "list_all (fresh_val L) (elements ob)"
  shows "fresh_closed L (store h a ob) \<and> take L (store h a ob) = take L h"
proof (cases "a < length h")
  case True
  with assms show ?thesis
    by (auto simp: fresh_closed_def store_def nth_list_update)
next
  case False
  then have "length h \<le> a" by simp
  then have "h[a := ob] = h" by (rule list_update_beyond)
  with assms show ?thesis by (simp add: store_def)
qed

lemma fresh_closed_alloc:
  assumes "fresh_closed L h" and "list_all (fresh_val L) (elements ob)"
  shows "fresh_closed L (h @ [ob]) \<and> take L (h @ [ob]) = take L h"
  using assms by (auto simp: fresh_closed_def nth_append)

lemma elements_empty_like: "elements (empty_like ob) = []"
  by (cases ob) auto

lemma elements_rebuild:
  "list_all P vs \<Longrightarrow> list_all P (elements (rebuild ob vs))"
  by (cases ob) (auto simp: list_all_iff dest: set_zip_rightD)

lemma map_of_fresh:
  "list_all (\<lambda>p. L \<le> snd p) m \<Longrightarrow> map_of m a = Some a' \<Longrightarrow> L \<le> a'"
  by (auto simp: list_all_iff dest!: map_of_SomeD)

lemma copy_all_fresh:
  assumes step: "\<And>v s r s'. fresh_state L s \<Longrightarrow> f v s = (r, s') \<Longrightarrow>
      fresh_state L s' \<and> take L (snd s') = take L (snd s) \<and> (\<forall>x. r = Inr x \<longrightarrow> fresh_val L x)"
  shows "fresh_state L s \<Longrightarrow> copy_all f vs s = (r, s') \<Longrightarrow>
      fresh_state L s' \<and> take L (snd s') = take L (snd s)
      \<and> (\<forall>xs. r = Inr xs \<longrightarrow> list_all (fresh_val L) xs)"
proof (induction vs arbitrary: s r s')
  case Nil
  then show ?case by auto
next
  case (Cons v vs)
  obtain r1 s1 where f1: "f v s = (r1, s1)" by (cases "f v s") auto
  from step[OF Cons.prems(1) f1]
  have i1: "fresh_state L s1" and t1: "take L (snd s1) = take L (snd s)"
    and v1: "\<forall>x. r1 = Inr x \<longrightarrow> fresh_val L x" by auto
  show ?case
  proof (cases r1)
    case (Inl e)
    with Cons.prems(2) f1 i1 t1 show ?thesis by auto
  next
    case (Inr v')
    obtain r2 s2 where f2: "copy_all f vs s1 = (r2, s2)" by (cases "copy_all f vs s1") auto
    from Cons.IH[OF i1 f2]
    have i2: "fresh_state L s2" and t2: "take L (snd s2) = take L (snd s1)"
      and v2: "\<forall>xs. r2 = Inr xs \<longrightarrow> list_all (fresh_val L) xs" by auto
    from Cons.prems(2) f1 f2 Inr have "s' = s2"
      and "r = (case r2 of Inl e \<Rightarrow> Inl e | Inr vs' \<Rightarrow> Inr (v' # vs'))"
      by (auto split: sum.splits)
    then show ?thesis using i2 t2 t1 v1 v2 Inr by (auto split: sum.splits)
  qed
qed

lemma deepcopy_fresh:
  "fresh_state L s \<Longrightarrow> deepcopy n v s = (r, s') \<Longrightarrow>
      fresh_state L s' \<and> take L (snd s') = take L (snd s) \<and> (\<forall>x. r = Inr x \<longrightarrow> fresh_val L x)"
proof (induction n arbitrary: v s r s')
  case 0
  then show ?case by auto
next
  case (Suc n)
  obtain m h where s: "s = (m, h)" by (cases s) auto
  show ?case
  proof (cases v)
    case (VRef a)
    show ?thesis
    proof (cases "map_of m a")
      case (Some a')
      with Suc.prems VRef s show ?thesis
        by (auto simp: fresh_state_def dest: map_of_fresh)
    next
      case None
      show ?thesis
      proof (cases "deref h a")
        case dn: None
        with Suc.prems VRef s None show ?thesis by auto
      next
        case (Some ob)
        let ?a' = "length h"
        let ?s1 = "((a, ?a') # m, h @ [empty_like ob])"
        have fc: "fresh_closed L h" and fm: "list_all (\<lambda>p. L \<le> snd p) m"
          using Suc.prems(1) s by (auto simp: fresh_state_def)
        have La: "L \<le> ?a'" using fc by (simp add: fresh_closed_def)
        have i1: "fresh_state L ?s1" and t1: "take L (snd ?s1) = take L h"
          using fresh_closed_alloc[OF fc, of "empty_like ob"] fm La
          by (auto simp: fresh_state_def elements_empty_like)
        obtain r2 s2 where c: "copy_all (deepcopy n) (elements ob) ?s1 = (r2, s2)"
          by (cases "copy_all (deepcopy n) (elements ob) ?s1") auto
        have "fresh_state L s2 \<and> take L (snd s2) = take L (snd ?s1)
              \<and> (\<forall>xs. r2 = Inr xs \<longrightarrow> list_all (fresh_val L) xs)"
          by (rule copy_all_fresh[where f = "deepcopy n", OF _ i1 c]) (rule Suc.IH)
        then have i2: "fresh_state L s2" and t2: "take L (snd s2) = take L h"
          and v2: "\<forall>xs. r2 = Inr xs \<longrightarrow> list_all (fresh_val L) xs" using t1 by auto
        show ?thesis
        proof (cases r2)
          case (Inl e)
          with Suc.prems(2) VRef s None Some c i2 t2 show ?thesis
            by (auto simp: alloc_def)
        next
          case (Inr vs)
          have fv: "list_all (fresh_val L) (elements (rebuild ob vs))"
            using v2 Inr by (simp add: elements_rebuild)
          have fc2: "fresh_closed L (snd s2)" using i2 by (simp add: fresh_state_def)
          from Suc.prems(2) VRef s None Some c Inr
          have r: "r = Inr (VRef ?a')" and s': "s' = (fst s2, store (snd s2) ?a' (rebuild ob vs))"
            by (auto simp: alloc_def)
          show ?thesis
            using fresh_closed_store[OF fc2 La fv] i2 t2 r s' La s
            by (auto simp: fresh_state_def)
        qed
      qed
    qed
  qed (use Suc.prems in auto)
qed

lemma heap_pop_fresh:
  assumes "fresh_closed L h" and "fresh_val L v" and "heap_pop k v h = (r, h')"
  shows "fresh_closed L h' \<and> take L h' = take L h \<and> (\<forall>x. r = Inr x \<longrightarrow> fresh_val L x)"
proof (cases v)
  case (VRef a)
  with assms(2) have La: "L \<le> a" by simp
  show ?thesis
  proof (cases "deref h a")
    case None
    with assms VRef show ?thesis by (auto simp: heap_pop_def)
  next
    case (Some ob)
    then have al: "a < length h" and ob: "ob = h ! a" by (auto simp: deref_def split: if_splits)
    show ?thesis
    proof (cases ob)
      case (OList l)
      with assms VRef Some show ?thesis by (auto simp: heap_pop_def)
    next
      case (ODict d)
      have hd: "h ! a = ODict d" using ob ODict by simp
      have "list_all (fresh_val L) (elements (h ! a))"
        using assms(1) La al by (simp add: fresh_closed_def)
      then have fd: "list_all (fresh_val L) (map snd d)" using hd by simp
      show ?thesis
      proof (cases "map_of d k")
        case None
        with assms VRef Some ODict show ?thesis by (auto simp: heap_pop_def dict_pop_def)
      next
        case sx: (Some x)
        then have "x \<in> set (map snd d)" by (force dest: map_of_SomeD)
        then have fx: "fresh_val L x" using fd by (auto simp: list_all_iff)
        have "set (AList.delete k d) \<subseteq> set d" by (auto simp: AList.delete_eq)
        then have fe: "list_all (fresh_val L) (elements (ODict (AList.delete k d)))"
          using fd by (auto simp: list_all_iff)
        from assms(3) VRef Some ODict sx
        have "r = Inr x" and "h' = store h a (ODict (AList.delete k d))"
          by (auto simp: heap_pop_def dict_pop_def)
        then show ?thesis using fresh_closed_store[OF assms(1) La fe] fx by simp
      qed
    qed
  qed
qed (use assms in \<open>auto simp: heap_pop_def\<close>)

lemma get_object_fresh:
  assumes "fresh_closed L (heap st)" and "fresh_val L config"
      and "get_object_from_config reg kind entry ds config st = (r, st')"
  shows "fresh_closed L (heap st') \<and> take L (heap st') = take L (heap st)"
proof -
  obtain rp hp where p: "heap_pop ''class'' config (heap st) = (rp, hp)"
    by (cases "heap_pop ''class'' config (heap st)") auto
  from heap_pop_fresh[OF assms(1,2) p]
  have fp: "fresh_closed L hp" and tp: "take L hp = take L (heap st)" by auto
  have "heap st' = heap st \<or> heap st' = hp"
    using assms(3) p
    by (auto simp: get_object_from_config_def split: if_splits sum.splits bool.splits prod.splits)
  then show ?thesis using assms(1) fp tp by auto
qed

lemma load_frame:
  "take (length (heap st)) (heap (snd (StudyDataset_load c ds st))) = heap st"
proof -
  let ?L = "length (heap st)"
  have f0: "fresh_state ?L ([], heap st)"
    by (auto simp: fresh_state_def fresh_closed_def)
  obtain r1 s1 where d: "deepcopy (recursion_limit c) (VRef (load_args ds)) ([], heap st) = (r1, s1)"
    by (cases "deepcopy (recursion_limit c) (VRef (load_args ds)) ([], heap st)") auto
  from deepcopy_fresh[OF f0 d]
  have c1: "fresh_closed ?L (snd s1)" and t1: "take ?L (snd s1) = heap st"
    and v1: "\<forall>x. r1 = Inr x \<longrightarrow> fresh_val ?L x" by (auto simp: fresh_state_def)
  show ?thesis
  proof (cases r1)
    case (Inl e)
    with d t1 show ?thesis by (simp add: StudyDataset_load_def)
  next
    case (Inr la)
    then have fla: "fresh_val ?L la" using v1 by simp
    obtain r2 h2 where p2: "heap_pop ''sampler'' la (snd s1) = (r2, h2)"
      by (cases "heap_pop ''sampler'' la (snd s1)") auto
    from heap_pop_fresh[OF c1 fla p2]
    have c2: "fresh_closed ?L h2" and t2: "take ?L h2 = heap st"
      and v2: "\<forall>x. r2 = Inr x \<longrightarrow> fresh_val ?L x" using t1 by auto
    show ?thesis
    proof (cases r2)
      case (Inl e)
      with d \<open>r1 = Inr la\<close> p2 t2 show ?thesis by (simp add: StudyDataset_load_def)
    next
      case sc: (Inr sampler_config)
      then have fsc: "fresh_val ?L sampler_config" using v2 by simp
      obtain r3 st3 where g3:
        "get_sampler_from_config c ds sampler_config (st\<lparr>heap := h2\<rparr>) = (r3, st3)"
        by (cases "get_sampler_from_config c ds sampler_config (st\<lparr>heap := h2\<rparr>)") auto
      have c2': "fresh_closed ?L (heap (st\<lparr>heap := h2\<rparr>))" using c2 by simp
      from get_object_fresh[OF c2' fsc g3[unfolded get_sampler_from_config_def]]
      have c3: "fresh_closed ?L (heap st3)" and t3: "take ?L (heap st3) = heap st"
        using t2 by auto
      show ?thesis
      proof (cases r3)
        case (Inl e)
        with d \<open>r1 = Inr la\<close> p2 sc g3 t3 show ?thesis by (simp add: StudyDataset_load_def)
      next
        case sm: (Inr sampler)
        obtain r4 h4 where p4: "heap_pop ''pruner'' la (heap st3) = (r4, h4)"
          by (cases "heap_pop ''pruner'' la (heap st3)") auto
        from heap_pop_fresh[OF c3 fla p4]
        have c4: "fresh_closed ?L h4" and t4: "take ?L h4 = heap st"
          and v4: "\<forall>x. r4 = Inr x \<longrightarrow> fresh_val ?L x" using t3 by auto
        show ?thesis
        proof (cases r4)
          case (Inl e)
          with d \<open>r1 = Inr la\<close> p2 sc g3 sm p4 t4 show ?thesis
            by (simp add: StudyDataset_load_def)
        next
          case pc: (Inr pruner_config)
          then have fpc: "fresh_val ?L pruner_config" using v4 by simp
          obtain r5 st5 where g5:
            "get_pruner_from_config c ds pruner_config (st3\<lparr>heap := h4\<rparr>) = (r5, st5)"
            by (cases "get_pruner_from_config c ds pruner_config (st3\<lparr>heap := h4\<rparr>)") auto
          have c4': "fresh_closed ?L (heap (st3\<lparr>heap := h4\<rparr>))" using c4 by simp
          from get_object_fresh[OF c4' fpc g5[unfolded get_pruner_from_config_def]]
          have t5: "take ?L (heap st5) = heap st" using t4 by auto
          show ?thesis
            using d \<open>r1 = Inr la\<close> p2 sc g3 sm p4 pc g5 t5
            by (auto simp: StudyDataset_load_def split: sum.splits)
        qed
      qed
    qed
  qed
qed


lemma deepcopy_dangling:
  "deref h a = None \<Longrightarrow> snd (snd (deepcopy n (VRef a) ([], h))) = h"
  by (cases n) auto

lemma load_dangling:
  assumes "deref (heap st) (load_args ds) = None"
  shows "heap (snd (StudyDataset_load c ds st)) = heap st"
proof (cases "recursion_limit c")
  case 0
  then show ?thesis by (simp add: StudyDataset_load_def)
next
  case (Suc n)
  with assms show ?thesis by (simp add: StudyDataset_load_def)
qed

text \<open>
  Claim C10. \<^verbatim>\<open>load\<close> works on a deep copy of \<^verbatim>\<open>self._load_args\<close>: every object that
  was in the heap before the call is the same after it, whatever the call returns
  or raises. In particular the dict \<^verbatim>\<open>self._load_args\<close> refers to, and the sampler and
  pruner dicts in it, still hold their \<^verbatim>\<open>class\<close> entries, so each later \<^verbatim>\<open>load\<close>
  starts from the same configuration.
\<close>

theorem load_preserves_load_args:
  "take (length (heap st)) (heap (snd (StudyDataset_load c ds st))) = heap st
   \<and> deref (heap (snd (StudyDataset_load c ds st))) (load_args ds)
       = deref (heap st) (load_args ds)"
proof -
  let ?h' = "heap (snd (StudyDataset_load c ds st))"
  have t: "take (length (heap st)) ?h' = heap st" by (rule load_frame)
  have "deref ?h' (load_args ds) = deref (heap st) (load_args ds)"
  proof (cases "load_args ds < length (heap st)")
    case True
    have "length (take (length (heap st)) ?h') = length (heap st)" using t by simp
    then have l: "length (heap st) \<le> length ?h'" by simp
    have "?h' ! load_args ds = take (length (heap st)) ?h' ! load_args ds"
      using True by simp
    then have "?h' ! load_args ds = heap st ! load_args ds" using t by simp
    then show ?thesis using True l by (simp add: deref_def)
  next
    case False
    then have "deref (heap st) (load_args ds) = None" by (simp add: deref_def)
    from load_dangling [OF this, of c] show ?thesis by simp
  qed
  with t show ?thesis by simp
qed

theorem load_preserves_load_args_witness:
  "StudyDataset_load example_collaborators (example_dataset\<lparr>load_args := 1\<rparr>)
      \<lparr>heap = example_heap, world = (True, [''study1'']), calls = []\<rparr>
   = (Inr ''study1'',
      \<lparr>heap = example_heap @ [ODict [], ODict [(''n_startup_trials'', VInt 10)]],
       world = (True, [''study1'']),
       calls = [SamplerInit ''TPESampler'' [(''n_startup_trials'', VInt 10)],
                LoadStudy ''sqlite:///optuna.db'' ''study1'']\<rparr>)
   \<and> take (length example_heap)
        (heap (snd (StudyDataset_load example_collaborators (example_dataset\<lparr>load_args := 1\<rparr>)
           \<lparr>heap = example_heap, world = (True, [''study1'']), calls = []\<rparr>)))
     = example_heap
   \<and> deref example_heap 1 = Some (ODict [(''sampler'', VRef 0), (''pruner'', VNone)])"
proof -
  let ?st = "\<lparr>heap = example_heap, world = (True, [''study1'']), calls = []\<rparr>
             :: (bool \<times> string list) state"
  have ev: "StudyDataset_load example_collaborators (example_dataset\<lparr>load_args := 1\<rparr>) ?st
   = (Inr ''study1'',
      \<lparr>heap = example_heap @ [ODict [], ODict [(''n_startup_trials'', VInt 10)]],
       world = (True, [''study1'']),
       calls = [SamplerInit ''TPESampler'' [(''n_startup_trials'', VInt 10)],
                LoadStudy ''sqlite:///optuna.db'' ''study1'']\<rparr>)"
    by (simp add: StudyDataset_load_def example_collaborators_def example_dataset_def
        example_heap_def eval_nat_numeral deref_def alloc_def store_def heap_pop_def
        dict_pop_def get_sampler_from_config_def get_pruner_from_config_def
        get_object_from_config_def py_contains_def dict_contains_def py_getattr_def
        unpack_kwargs_def get_load_study_name_def)
  have d: "deref example_heap 1 = Some (ODict [(''sampler'', VRef 0), (''pruner'', VNone)])"
    by (simp add: deref_def example_heap_def)
  from load_preserves_load_args
    [of ?st example_collaborators "example_dataset\<lparr>load_args := 1\<rparr>"]
  show ?thesis using ev d by simp
qed

end
